theory Spec2Isabelle
  imports Complex_Main "HOL-Library.Sublist"
begin

section \<open>Python values\<close>

text \<open>
  The server of \<^verbatim>\<open>racing_server.py\<close> keeps one control state, updates it from JSON
  messages and projects it onto one of three device libraries.  This theory embeds
  the class \<^verbatim>\<open>AnalogRacingServer\<close>: its attributes are a record, each method is a
  function from the record to the updated record, and every call made on a device
  library or on \<^verbatim>\<open>logger.error\<close> is appended to a list kept in the record.

  Numbers.  A Python \<^verbatim>\<open>int\<close>, \<^verbatim>\<open>bool\<close> or finite \<^verbatim>\<open>float\<close> is modelled by
  its exact real value (\<open>Num\<close>); the non-finite floats that \<^verbatim>\<open>json.loads\<close> also produces
  (\<^verbatim>\<open>Infinity\<close>, \<^verbatim>\<open>-Infinity\<close>, \<^verbatim>\<open>NaN\<close>) are separate values with the comparison
  results of IEEE 754.  The rounding of float arithmetic is modelled where the code
  truncates a float to an integer (\<open>update_vjoy_controller\<close>); elsewhere a float
  operation is the exact operation.
\<close>

datatype pyerror =
  JSONDecodeError | AttributeError | TypeError | KeyError
  | OverflowError | ValueError | ZeroDivisionError

datatype num = Num real | PosInf | NegInf | NaN

datatype json =
  JNull | JBool bool | JInt int | JFloat num | JStr string
  | JArr "json list" | JObj "(string \<times> json) list"

text \<open>\<^verbatim>\<open>a < b\<close> on numbers; every comparison with NaN is false.\<close>

fun num_lt :: "num \<Rightarrow> num \<Rightarrow> bool" where
  "num_lt (Num x) (Num y) = (x < y)"
| "num_lt NaN b = False"
| "num_lt a NaN = False"
| "num_lt NegInf NegInf = False"
| "num_lt NegInf b = True"
| "num_lt a NegInf = False"
| "num_lt PosInf b = False"
| "num_lt a PosInf = True"

text \<open>
  The builtins \<^verbatim>\<open>min(a, b)\<close> and \<^verbatim>\<open>max(a, b)\<close> keep their first argument unless
  the second is strictly smaller (larger).
\<close>

definition py_min :: "num \<Rightarrow> num \<Rightarrow> num" where
  "py_min a b = (if num_lt b a then b else a)"

definition py_max :: "num \<Rightarrow> num \<Rightarrow> num" where
  "py_max a b = (if num_lt a b then b else a)"

fun num_abs :: "num \<Rightarrow> num" where
  "num_abs (Num x) = Num \<bar>x\<bar>"
| "num_abs PosInf = PosInf"
| "num_abs NegInf = PosInf"
| "num_abs NaN = NaN"

text \<open>
  Arithmetic with positive float constants (\<^verbatim>\<open>x + 1.0\<close>, \<^verbatim>\<open>x / 2.0\<close>,
  \<^verbatim>\<open>x * 32767\<close>, \<^verbatim>\<open>x / 100.0\<close>): the function is applied to a finite value, and an
  infinity or NaN stays what it is.
\<close>

fun num_map :: "(real \<Rightarrow> real) \<Rightarrow> num \<Rightarrow> num" where
  "num_map f (Num x) = Num (f x)"
| "num_map f PosInf = PosInf"
| "num_map f NegInf = NegInf"
| "num_map f NaN = NaN"

text \<open>\<^verbatim>\<open>x / c\<close> for a float attribute \<open>c\<close>, which may be zero or negative.\<close>

definition num_truediv :: "num \<Rightarrow> real \<Rightarrow> pyerror + num" where
  "num_truediv x c =
     (if c = 0 then Inl ZeroDivisionError
      else Inr (case x of
                  Num r \<Rightarrow> Num (r / c)
                | PosInf \<Rightarrow> (if 0 < c then PosInf else NegInf)
                | NegInf \<Rightarrow> (if 0 < c then NegInf else PosInf)
                | NaN \<Rightarrow> NaN))"

text \<open>\<^verbatim>\<open>int(x)\<close> truncates towards zero and raises on a non-finite float.\<close>

definition trunc :: "real \<Rightarrow> int" where
  "trunc x = (if 0 \<le> x then \<lfloor>x\<rfloor> else \<lceil>x\<rceil>)"

fun py_int :: "num \<Rightarrow> pyerror + int" where
  "py_int (Num x) = Inr (trunc x)"
| "py_int PosInf = Inl OverflowError"
| "py_int NegInf = Inl OverflowError"
| "py_int NaN = Inl ValueError"

text \<open>
  Double arithmetic.  \<open>update_vjoy_controller\<close> truncates the results of float
  operations with \<^verbatim>\<open>int\<close>, so there the rounding of every operation decides the
  integer that is written.  \<open>fl x\<close> is the IEEE 754 binary64 number nearest to \<open>x\<close>, a
  tie going to the even significand: \<open>expo x\<close> is the binary exponent of \<open>x\<close> (the
  largest \<open>k\<close> with \<open>2 ^ k \<le> \<bar>x\<bar>\<close>, looked for from 1024 down to -1074, and -1075 when
  there is none), doubles near \<open>x\<close> are the multiples of
  \<open>2 ^ (max (expo x) (-1022) - 52)\<close>, which covers the subnormal range, and a result of
  magnitude \<open>2 ^ 1024\<close> is an infinity.
\<close>

definition pow2 :: "int \<Rightarrow> real" where
  "pow2 k = (if 0 \<le> k then 2 ^ nat k else 1 / 2 ^ nat (- k))"

definition round_even :: "real \<Rightarrow> int" where
  "round_even y =
     (let f = \<lfloor>y\<rfloor>; d = y - of_int f
      in if d < 1 / 2 then f else if 1 / 2 < d then f + 1 else if even f then f else f + 1)"

primrec scan :: "real \<Rightarrow> nat \<Rightarrow> int" where
  "scan a 0 = - 1075"
| "scan a (Suc m) = (if pow2 (int m - 1074) \<le> a then int m - 1074 else scan a m)"

definition expo :: "real \<Rightarrow> int" where
  "expo x = scan \<bar>x\<bar> 2099"

definition flr :: "real \<Rightarrow> real" where
  "flr x = (let u = pow2 (max (expo x) (- 1022) - 52) in of_int (round_even (x / u)) * u)"

definition fl :: "real \<Rightarrow> num" where
  "fl x = (let r = flr x
          in if 2 ^ 1024 \<le> r then PosInf else if r \<le> - (2 ^ 1024) then NegInf else Num r)"

fun num_fl :: "num \<Rightarrow> num" where
  "num_fl (Num x) = fl x"
| "num_fl PosInf = PosInf"
| "num_fl NegInf = NegInf"
| "num_fl NaN = NaN"

text \<open>One float operation with a constant as its other operand, rounded.\<close>

definition float_op :: "(real \<Rightarrow> real) \<Rightarrow> num \<Rightarrow> num" where
  "float_op f x = num_fl (num_map f x)"

text \<open>
  The numeric value of a decoded JSON value when it is compared with a float:
  \<^verbatim>\<open>bool\<close> is a subclass of \<^verbatim>\<open>int\<close>, and an \<^verbatim>\<open>int\<close> of any size is compared
  exactly.  Every other type raises \<^verbatim>\<open>TypeError\<close> in the comparison.
\<close>

fun as_num :: "json \<Rightarrow> num option" where
  "as_num (JBool b) = Some (Num (if b then 1 else 0))"
| "as_num (JInt i) = Some (Num (of_int i))"
| "as_num (JFloat x) = Some x"
| "as_num v = None"

text \<open>
  An \<^verbatim>\<open>int\<close> is converted to a float before \<^verbatim>\<open>/ 100.0\<close>; the conversion raises
  \<^verbatim>\<open>OverflowError\<close> when the int rounds to a value beyond the largest double.
\<close>

definition float_limit :: int where
  "float_limit = 2 ^ 1024 - 2 ^ 970"

fun truediv_100 :: "json \<Rightarrow> pyerror + num" where
  "truediv_100 (JBool b) = Inr (Num ((if b then 1 else 0) / 100))"
| "truediv_100 (JInt i) =
     (if float_limit \<le> \<bar>i\<bar> then Inl OverflowError else Inr (Num (of_int i / 100)))"
| "truediv_100 (JFloat x) = Inr (num_map (\<lambda>r. r / 100) x)"
| "truediv_100 v = Inl TypeError"

text \<open>
  \<^verbatim>\<open>key in payload\<close>: key membership for a dict, substring test for a str, element
  test for a list, \<^verbatim>\<open>TypeError\<close> for the other types.
\<close>

fun py_in :: "string \<Rightarrow> json \<Rightarrow> pyerror + bool" where
  "py_in k (JObj kvs) = Inr (map_of kvs k \<noteq> None)"
| "py_in k (JStr t) = Inr (sublist k t)"
| "py_in k (JArr xs) = Inr (JStr k \<in> set xs)"
| "py_in k v = Inl TypeError"

text \<open>\<^verbatim>\<open>payload[key]\<close> with a str key.\<close>

fun py_getitem :: "json \<Rightarrow> string \<Rightarrow> pyerror + json" where
  "py_getitem (JObj kvs) k = (case map_of kvs k of None \<Rightarrow> Inl KeyError | Some v \<Rightarrow> Inr v)"
| "py_getitem v k = Inl TypeError"

text \<open>\<^verbatim>\<open>data.get(key, default)\<close>: only a dict has the method.\<close>

fun py_get :: "json \<Rightarrow> string \<Rightarrow> json \<Rightarrow> pyerror + json" where
  "py_get (JObj kvs) k d = Inr (case map_of kvs k of None \<Rightarrow> d | Some v \<Rightarrow> v)"
| "py_get v k d = Inl AttributeError"

section \<open>The server object\<close>

datatype ctype = VGAMEPAD_XBOX | VJOY | KEYBOARD | NONE

datatype xbutton = XUSB_GAMEPAD_A | XUSB_GAMEPAD_X

datatype axis = HID_USAGE_X | HID_USAGE_Y | HID_USAGE_Z

text \<open>
  The calls the server makes on \<^verbatim>\<open>vgamepad\<close>, \<^verbatim>\<open>pyvjoy\<close>, \<^verbatim>\<open>pyautogui\<close> and on
  \<^verbatim>\<open>logger.error\<close>.  The device libraries are outside the repository: a call is
  recorded and returns normally.
\<close>

datatype effect =
  LeftJoystickFloat num num
  | RightTriggerFloat num
  | LeftTriggerFloat num
  | PressButton xbutton
  | ReleaseButton xbutton
  | PadUpdate
  | PadReset
  | SetAxis axis int
  | SetButton nat bool
  | KeyDown string
  | KeyUp string
  | LogError string

text \<open>
  \<open>keys_pressed\<close> is a Python set.  The list holds its elements in one order, which
  is the order in which the loop of \<open>release_all_inputs\<close> visits them; Python leaves
  that order open.  A websocket is identified by a number.
\<close>

record server =
  connected_clients :: "nat set"
  current_steering :: num
  max_steering_angle :: real
  current_accelerator :: num
  current_brake :: num
  handbrake_pressed :: bool
  horn_pressed :: bool
  controller_type :: ctype
  keys_pressed :: "string list"
  effects :: "effect list"

definition emit :: "server \<Rightarrow> effect \<Rightarrow> server" where
  "emit s e = s\<lparr>effects := effects s @ [e]\<rparr>"

text \<open>\<open>__init__\<close>, with the result of \<open>init_controller\<close> (the library probing) given.\<close>

definition init_server :: "ctype \<Rightarrow> server" where
  "init_server ct =
     \<lparr>connected_clients = {},
      current_steering = Num 0,
      max_steering_angle = 900,
      current_accelerator = Num 0,
      current_brake = Num 0,
      handbrake_pressed = False,
      horn_pressed = False,
      controller_type = ct,
      keys_pressed = [],
      effects = []\<rparr>"

subsection \<open>The output device\<close>

definition update_vgamepad_controller :: "server \<Rightarrow> server" where
  "update_vgamepad_controller s =
     (case num_truediv (current_steering s) (max_steering_angle s) of
        Inl e \<Rightarrow> emit s (LogError ''vgamepad error'')
      | Inr q \<Rightarrow>
          (let steering_normalized = py_max (Num (- 1)) (py_min (Num 1) q) in
           s\<lparr>effects := effects s @
              [LeftJoystickFloat steering_normalized (Num 0),
               RightTriggerFloat (current_accelerator s),
               LeftTriggerFloat (current_brake s),
               (if handbrake_pressed s then PressButton XUSB_GAMEPAD_A
                else ReleaseButton XUSB_GAMEPAD_A),
               (if horn_pressed s then PressButton XUSB_GAMEPAD_X
                else ReleaseButton XUSB_GAMEPAD_X),
               PadUpdate]\<rparr>))"

text \<open>
  \<open>update_vjoy_controller\<close> in double arithmetic.  The three attributes it reads hold
  doubles (or small ints): the state of this theory holds the exact clamped value, and
  \<open>num_fl\<close> of it is the attribute.  For accelerator and brake the code rounds the
  quotient by 100 and then clamps it, which gives the same double as rounding the
  clamped exact quotient, since rounding is monotone and keeps 0 and 1; a steering
  value is stored as it arrived.  \<open>max_steering_angle\<close> is a float attribute and is taken
  as it is.  The expression \<^verbatim>\<open>(steering_normalized + 1.0) / 2.0 * 32767\<close> is three
  operations, each rounded.
\<close>

definition update_vjoy_controller :: "server \<Rightarrow> server" where
  "update_vjoy_controller s =
     (case num_truediv (num_fl (current_steering s)) (max_steering_angle s) of
        Inl e \<Rightarrow> emit s (LogError ''VJoy error'')
      | Inr q \<Rightarrow>
          (let steering_normalized = py_max (Num (- 1)) (py_min (Num 1) (num_fl q)) in
           case py_int (float_op (\<lambda>x. x * 32767)
                  (float_op (\<lambda>x. x / 2) (float_op (\<lambda>x. x + 1) steering_normalized))) of
             Inl e \<Rightarrow> emit s (LogError ''VJoy error'')
           | Inr i \<Rightarrow>
               (let steering_vjoy = i + 1;
                    s1 = emit s (SetAxis HID_USAGE_X steering_vjoy) in
                case py_int (float_op (\<lambda>x. x * 32767) (num_fl (current_accelerator s))) of
                  Inl e \<Rightarrow> emit s1 (LogError ''VJoy error'')
                | Inr a \<Rightarrow>
                    (let accel_vjoy = a + 1;
                         s2 = emit s1 (SetAxis HID_USAGE_Y (32768 - accel_vjoy)) in
                     case py_int (float_op (\<lambda>x. x * 32767) (num_fl (current_brake s))) of
                       Inl e \<Rightarrow> emit s2 (LogError ''VJoy error'')
                     | Inr b \<Rightarrow>
                         (let brake_vjoy = b + 1;
                              s3 = emit s2 (SetAxis HID_USAGE_Z brake_vjoy);
                              s4 = emit s3 (SetButton 1 (handbrake_pressed s))
                          in emit s4 (SetButton 2 (horn_pressed s)))))))"

definition press_key :: "server \<Rightarrow> string \<Rightarrow> server" where
  "press_key s key =
     (if key \<notin> set (keys_pressed s)
      then s\<lparr>keys_pressed := keys_pressed s @ [key], effects := effects s @ [KeyDown key]\<rparr>
      else s)"

definition release_key :: "server \<Rightarrow> string \<Rightarrow> server" where
  "release_key s key =
     (if key \<in> set (keys_pressed s)
      then s\<lparr>keys_pressed := removeAll key (keys_pressed s),
             effects := effects s @ [KeyUp key]\<rparr>
      else s)"

text \<open>
  \<open>update_keyboard_controller\<close> in two parts: \<open>steer_keys\<close> is its first
  \<^verbatim>\<open>if\<close>/\<^verbatim>\<open>elif\<close> chain, which has no \<^verbatim>\<open>else\<close>; \<open>switch_key b key\<close> is the
  statement \<^verbatim>\<open>if b: press_key(key) else: release_key(key)\<close> of the four keys after it.
\<close>

definition steer_keys :: "server \<Rightarrow> server" where
  "steer_keys s =
     (if num_lt (num_abs (current_steering s)) (Num 10)
      then release_key (release_key s ''a'') ''d''
      else if num_lt (current_steering s) (Num (- 10))
      then press_key (release_key s ''d'') ''a''
      else if num_lt (Num 10) (current_steering s)
      then press_key (release_key s ''a'') ''d''
      else s)"

definition switch_key :: "bool \<Rightarrow> string \<Rightarrow> server \<Rightarrow> server" where
  "switch_key b key s = (if b then press_key s key else release_key s key)"

definition update_keyboard_controller :: "server \<Rightarrow> server" where
  "update_keyboard_controller s =
     (let s1 = steer_keys s;
          s2 = switch_key (num_lt (Num (1 / 10)) (current_accelerator s)) ''w'' s1;
          s3 = switch_key (num_lt (Num (1 / 10)) (current_brake s)) ''s'' s2;
          s4 = switch_key (handbrake_pressed s) ''space'' s3
      in switch_key (horn_pressed s) ''h'' s4)"

definition update_controller :: "server \<Rightarrow> server" where
  "update_controller s =
     (case controller_type s of
        VGAMEPAD_XBOX \<Rightarrow> update_vgamepad_controller s
      | VJOY \<Rightarrow> update_vjoy_controller s
      | KEYBOARD \<Rightarrow> update_keyboard_controller s
      | NONE \<Rightarrow> s)"

definition release_all_inputs :: "server \<Rightarrow> server" where
  "release_all_inputs s =
     (let s0 = s\<lparr>current_steering := Num 0, current_accelerator := Num 0,
                 current_brake := Num 0, handbrake_pressed := False,
                 horn_pressed := False\<rparr>;
          s1 = (if controller_type s0 = KEYBOARD
                then foldl release_key s0 (keys_pressed s0)
                else if controller_type s0 = VGAMEPAD_XBOX
                then emit (emit s0 PadReset) PadUpdate
                else s0)
      in update_controller s1)"

subsection \<open>The session registry\<close>

text \<open>
  \<open>connected_clients.add\<close> and \<open>connected_clients.discard\<close>, and the reset when the set
  is empty after a discard.  The \<^verbatim>\<open>logger.info\<close> lines of the two methods, and the peer
  address that \<open>register_client\<close> reads for its line, are left out.
\<close>

definition register_client :: "server \<Rightarrow> nat \<Rightarrow> server" where
  "register_client s websocket =
     s\<lparr>connected_clients := insert websocket (connected_clients s)\<rparr>"

definition unregister_client :: "server \<Rightarrow> nat \<Rightarrow> server" where
  "unregister_client s websocket =
     (let s1 = s\<lparr>connected_clients := connected_clients s - {websocket}\<rparr> in
      if connected_clients s1 = {} then release_all_inputs s1 else s1)"

subsection \<open>The message handler\<close>

text \<open>
  The three assignments of the \<^verbatim>\<open>update\<close> branch.  Each returns the server with the
  field assigned, the server as it was when the key is absent, or the exception that
  the membership test, the subscript, the comparison or the division raises.
\<close>

definition set_steering :: "server \<Rightarrow> json \<Rightarrow> pyerror + server" where
  "set_steering s payload =
     (case py_in ''steering'' payload of
        Inl e \<Rightarrow> Inl e
      | Inr False \<Rightarrow> Inr s
      | Inr True \<Rightarrow>
          (case py_getitem payload ''steering'' of
             Inl e \<Rightarrow> Inl e
           | Inr v \<Rightarrow>
               (case as_num v of
                  None \<Rightarrow> Inl TypeError
                | Some x \<Rightarrow>
                    Inr (s\<lparr>current_steering :=
                           py_max (Num (- max_steering_angle s))
                             (py_min (Num (max_steering_angle s)) x)\<rparr>))))"

definition set_accelerator :: "server \<Rightarrow> json \<Rightarrow> pyerror + server" where
  "set_accelerator s payload =
     (case py_in ''accelerator'' payload of
        Inl e \<Rightarrow> Inl e
      | Inr False \<Rightarrow> Inr s
      | Inr True \<Rightarrow>
          (case py_getitem payload ''accelerator'' of
             Inl e \<Rightarrow> Inl e
           | Inr v \<Rightarrow>
               (case truediv_100 v of
                  Inl e \<Rightarrow> Inl e
                | Inr x \<Rightarrow>
                    Inr (s\<lparr>current_accelerator :=
                           py_max (Num 0) (py_min (Num 1) x)\<rparr>))))"

definition set_brake :: "server \<Rightarrow> json \<Rightarrow> pyerror + server" where
  "set_brake s payload =
     (case py_in ''brake'' payload of
        Inl e \<Rightarrow> Inl e
      | Inr False \<Rightarrow> Inr s
      | Inr True \<Rightarrow>
          (case py_getitem payload ''brake'' of
             Inl e \<Rightarrow> Inl e
           | Inr v \<Rightarrow>
               (case truediv_100 v of
                  Inl e \<Rightarrow> Inl e
                | Inr x \<Rightarrow>
                    Inr (s\<lparr>current_brake :=
                           py_max (Num 0) (py_min (Num 1) x)\<rparr>))))"

text \<open>
  The \<^verbatim>\<open>update\<close> branch.  An exception leaves the assignments made before it in
  place and skips \<open>update_controller\<close>; the pair holds the exception, if any, and the
  server at that point.
\<close>

definition handle_update :: "server \<Rightarrow> json \<Rightarrow> pyerror option \<times> server" where
  "handle_update s payload =
     (case set_steering s payload of
        Inl e \<Rightarrow> (Some e, s)
      | Inr s1 \<Rightarrow>
          (case set_accelerator s1 payload of
             Inl e \<Rightarrow> (Some e, s1)
           | Inr s2 \<Rightarrow>
               (case set_brake s2 payload of
                  Inl e \<Rightarrow> (Some e, s2)
                | Inr s3 \<Rightarrow> (None, update_controller s3))))"

text \<open>
  The body of the \<^verbatim>\<open>try\<close> block of \<open>handle_message\<close>.  \<^verbatim>\<open>json.loads\<close> belongs to the
  standard library and is a parameter: it returns the decoded value or the exception
  it raises.
\<close>

definition handle_message_try ::
  "(string \<Rightarrow> pyerror + json) \<Rightarrow> server \<Rightarrow> string \<Rightarrow> pyerror option \<times> server" where
  "handle_message_try loads s message =
     (case loads message of
        Inl e \<Rightarrow> (Some e, s)
      | Inr data \<Rightarrow>
          (case py_get data ''command'' JNull of
             Inl e \<Rightarrow> (Some e, s)
           | Inr command \<Rightarrow>
               (case py_get data ''data'' (JObj []) of
                  Inl e \<Rightarrow> (Some e, s)
                | Inr payload \<Rightarrow>
                    (if command = JStr ''update'' then handle_update s payload
                     else if command = JStr ''handbrake_press''
                     then (None, update_controller (s\<lparr>handbrake_pressed := True\<rparr>))
                     else if command = JStr ''handbrake_release''
                     then (None, update_controller (s\<lparr>handbrake_pressed := False\<rparr>))
                     else if command = JStr ''horn_press''
                     then (None, update_controller (s\<lparr>horn_pressed := True\<rparr>))
                     else if command = JStr ''horn_release''
                     then (None, update_controller (s\<lparr>horn_pressed := False\<rparr>))
                     else if command = JStr ''reset''
                     then (None, release_all_inputs s)
                     else (None, s)))))"

text \<open>
  \<open>handle_message\<close> with its two \<^verbatim>\<open>except\<close> clauses.  Every exception of the model
  is a subclass of \<^verbatim>\<open>Exception\<close>, so the second clause catches what the first does
  not.  The first component of the result is the exception that reaches the caller.
\<close>

definition handle_message ::
  "(string \<Rightarrow> pyerror + json) \<Rightarrow> server \<Rightarrow> nat \<Rightarrow> string \<Rightarrow> pyerror option \<times> server" where
  "handle_message loads s websocket message =
     (case handle_message_try loads s message of
        (None, s') \<Rightarrow> (None, s')
      | (Some e, s') \<Rightarrow>
          (if e = JSONDecodeError then (None, emit s' (LogError ''Invalid JSON''))
           else (None, emit s' (LogError ''Error handling message''))))"

subsection \<open>Runs of the server\<close>

text \<open>
  One event per call of an \<^verbatim>\<open>async\<close> method of the class.  None of the three methods
  awaits, so each runs to its end before the event loop starts the next.
\<close>

datatype event = Connect nat | Message nat string | Disconnect nat

fun step :: "(string \<Rightarrow> pyerror + json) \<Rightarrow> server \<Rightarrow> event \<Rightarrow> server" where
  "step loads s (Connect c) = register_client s c"
| "step loads s (Message c m) = snd (handle_message loads s c m)"
| "step loads s (Disconnect c) = unregister_client s c"

definition run :: "(string \<Rightarrow> pyerror + json) \<Rightarrow> server \<Rightarrow> event list \<Rightarrow> server" where
  "run loads s evs = foldl (step loads) s evs"

section \<open>The properties\<close>

text \<open>The five fields of the control state, and the neutral state.\<close>

definition control_state :: "server \<Rightarrow> num \<times> num \<times> num \<times> bool \<times> bool" where
  "control_state s =
     (current_steering s, current_accelerator s, current_brake s,
      handbrake_pressed s, horn_pressed s)"

definition neutral :: "num \<times> num \<times> num \<times> bool \<times> bool" where
  "neutral = (Num 0, Num 0, Num 0, False, False)"

text \<open>A field is in its domain when it is a finite number between the bounds.\<close>

fun num_between :: "real \<Rightarrow> real \<Rightarrow> num \<Rightarrow> bool" where
  "num_between lo hi (Num x) = (lo \<le> x \<and> x \<le> hi)"
| "num_between lo hi v = False"

definition in_domain :: "server \<Rightarrow> bool" where
  "in_domain s =
     (num_between (- max_steering_angle s) (max_steering_angle s) (current_steering s)
      \<and> num_between 0 1 (current_accelerator s)
      \<and> num_between 0 1 (current_brake s))"

definition state_ok :: "server \<Rightarrow> bool" where
  "state_ok s = (in_domain s \<and> 0 \<le> max_steering_angle s)"

text \<open>\<open>device_only s s'\<close>: the two servers differ at most in the held keys and the calls made.\<close>

definition device_only :: "server \<Rightarrow> server \<Rightarrow> bool" where
  "device_only s s' =
     (connected_clients s' = connected_clients s
      \<and> current_steering s' = current_steering s
      \<and> max_steering_angle s' = max_steering_angle s
      \<and> current_accelerator s' = current_accelerator s
      \<and> current_brake s' = current_brake s
      \<and> handbrake_pressed s' = handbrake_pressed s
      \<and> horn_pressed s' = horn_pressed s
      \<and> controller_type s' = controller_type s)"

text \<open>
  The real value of a JSON number that is finite as a float: a bool, an int below the
  float range's end, a finite float.  These are the values that \<^verbatim>\<open>/ 100.0\<close> accepts
  and keeps finite.
\<close>

fun finite_number :: "json \<Rightarrow> real option" where
  "finite_number (JBool b) = Some (if b then 1 else 0)"
| "finite_number (JInt i) = (if float_limit \<le> \<bar>i\<bar> then None else Some (of_int i))"
| "finite_number (JFloat (Num x)) = Some x"
| "finite_number v = None"



text \<open>
  The keys a keyboard holds after a list of calls, starting with the keys \<open>H\<close> held, and
  whether every \<open>KeyDown\<close> of the list finds its key released and every \<open>KeyUp\<close> finds
  it held.
\<close>

fun held_after :: "string set \<Rightarrow> effect list \<Rightarrow> string set" where
  "held_after H [] = H"
| "held_after H (KeyDown k # es) = held_after (insert k H) es"
| "held_after H (KeyUp k # es) = held_after (H - {k}) es"
| "held_after H (e # es) = held_after H es"

fun transitions_only :: "string set \<Rightarrow> effect list \<Rightarrow> bool" where
  "transitions_only H [] = True"
| "transitions_only H (KeyDown k # es) = (k \<notin> H \<and> transitions_only (insert k H) es)"
| "transitions_only H (KeyUp k # es) = (k \<in> H \<and> transitions_only (H - {k}) es)"
| "transitions_only H (e # es) = transitions_only H es"

definition keys_ok :: "server \<Rightarrow> bool" where
  "keys_ok s =
     (transitions_only {} (effects s) \<and> held_after {} (effects s) = set (keys_pressed s))"

text \<open>
  The messages a client sends (section 6 of the specification), as \<^verbatim>\<open>json.loads\<close>
  returns them; used for the concrete instances of the theorems.
\<close>

definition update_message :: "(string \<times> json) list \<Rightarrow> json" where
  "update_message d = JObj [(''command'', JStr ''update''), (''data'', JObj d)]"

definition command_message :: "string \<Rightarrow> json" where
  "command_message c = JObj [(''command'', JStr c)]"

text \<open>Whether a call is a key press or a key release.\<close>

fun key_call :: "effect \<Rightarrow> bool" where
  "key_call (KeyDown k) = True"
| "key_call (KeyUp k) = True"
| "key_call e = False"

text \<open>
  The accelerator axis as the specification words it, \<open>AXIS_MAX - value\<close> with
  \<open>AXIS_MAX = 32767\<close> and \<open>value = int(accelerator * AXIS_MAX) + 1\<close>; to be compared
  with what \<open>update_vjoy_controller\<close> writes.
\<close>

definition claimed_accelerator_axis :: "real \<Rightarrow> int" where
  "claimed_accelerator_axis a = 32767 - (trunc (a * 32767) + 1)"

section \<open>Frame of the device functions\<close>

lemma device_only_refl: "device_only s s"
  by (simp add: device_only_def)

lemma device_only_trans: "device_only s t \<Longrightarrow> device_only t u \<Longrightarrow> device_only s u"
  by (simp add: device_only_def)

lemma device_only_emit: "device_only s (emit s e)"
  by (simp add: device_only_def emit_def)

lemma device_only_press_key: "device_only s (press_key s k)"
  by (simp add: device_only_def press_key_def)

lemma device_only_release_key: "device_only s (release_key s k)"
  by (simp add: device_only_def release_key_def)

lemma device_only_switch_key: "device_only s (switch_key b k s)"
  by (simp add: switch_key_def device_only_press_key device_only_release_key)

lemma device_only_steer_keys: "device_only s (steer_keys s)"
  unfolding steer_keys_def
  by (auto intro: device_only_trans device_only_press_key device_only_release_key device_only_refl)

lemma device_only_switch_key2: "device_only s t \<Longrightarrow> device_only s (switch_key b k t)"
  by (simp add: switch_key_def press_key_def release_key_def device_only_def)

lemma device_only_keyboard: "device_only s (update_keyboard_controller s)"
  unfolding update_keyboard_controller_def Let_def
  by (intro device_only_switch_key2 device_only_steer_keys)

lemma device_only_vgamepad: "device_only s (update_vgamepad_controller s)"
  by (simp add: update_vgamepad_controller_def device_only_def emit_def Let_def split: sum.split)

lemma device_only_emit2: "device_only s t \<Longrightarrow> device_only s (emit t e)"
  by (simp add: device_only_def emit_def)

lemma device_only_vjoy: "device_only s (update_vjoy_controller s)"
  unfolding update_vjoy_controller_def Let_def
  by (intro device_only_emit2 device_only_refl | split sum.split, intro conjI allI impI)+

lemma device_only_update_controller: "device_only s (update_controller s)"
  by (simp add: update_controller_def device_only_refl device_only_keyboard
      device_only_vgamepad device_only_vjoy split: ctype.split)

lemma device_only_foldl_release: "device_only s (foldl release_key s ks)"
proof (induction ks arbitrary: s)
  case Nil
  show ?case by (simp add: device_only_refl)
next
  case (Cons k ks)
  have "device_only s (release_key s k)" by (rule device_only_release_key)
  moreover have "device_only (release_key s k) (foldl release_key (release_key s k) ks)"
    by (rule Cons.IH)
  ultimately show ?case by (simp add: device_only_trans)
qed

lemma device_only_in_domain: "device_only s s' \<Longrightarrow> in_domain s' = in_domain s"
  by (simp add: device_only_def in_domain_def)

lemma device_only_control_state: "device_only s s' \<Longrightarrow> control_state s' = control_state s"
  by (simp add: device_only_def control_state_def)


lemma clamp_range:
  "lo \<le> hi \<Longrightarrow> num_between lo hi (py_max (Num lo) (py_min (Num hi) v))"
  by (cases v) (auto simp: py_max_def py_min_def)

lemma clamp_Num:
  "py_max (Num lo) (py_min (Num hi) (Num x)) = Num (max lo (min hi x))"
  by (auto simp: py_max_def py_min_def)

lemma set_steering_cases:
  assumes "set_steering s p = Inr s'"
  shows "s' = s \<or> (\<exists>x. s' = s\<lparr>current_steering :=
           py_max (Num (- max_steering_angle s)) (py_min (Num (max_steering_angle s)) x)\<rparr>)"
  using assms
  by (auto simp: set_steering_def split: sum.splits bool.splits option.splits)

lemma set_accelerator_cases:
  assumes "set_accelerator s p = Inr s'"
  shows "s' = s \<or> (\<exists>x. s' = s\<lparr>current_accelerator := py_max (Num 0) (py_min (Num 1) x)\<rparr>)"
  using assms
  by (auto simp: set_accelerator_def split: sum.splits bool.splits)

lemma set_brake_cases:
  assumes "set_brake s p = Inr s'"
  shows "s' = s \<or> (\<exists>x. s' = s\<lparr>current_brake := py_max (Num 0) (py_min (Num 1) x)\<rparr>)"
  using assms
  by (auto simp: set_brake_def split: sum.splits bool.splits)

lemma ok_set_steering: "state_ok s \<Longrightarrow> set_steering s p = Inr s' \<Longrightarrow> state_ok s'"
  using set_steering_cases [of s p s'] clamp_range [of "- max_steering_angle s" "max_steering_angle s"]
  by (auto simp: state_ok_def in_domain_def)

lemma ok_set_accelerator: "state_ok s \<Longrightarrow> set_accelerator s p = Inr s' \<Longrightarrow> state_ok s'"
  using set_accelerator_cases [of s p s'] clamp_range [of 0 1]
  by (auto simp: state_ok_def in_domain_def)

lemma ok_set_brake: "state_ok s \<Longrightarrow> set_brake s p = Inr s' \<Longrightarrow> state_ok s'"
  using set_brake_cases [of s p s'] clamp_range [of 0 1]
  by (auto simp: state_ok_def in_domain_def)

lemma device_only_ok: "device_only s s' \<Longrightarrow> state_ok s' = state_ok s"
  by (simp add: device_only_def in_domain_def state_ok_def)

lemma ok_update_controller: "state_ok (update_controller s) = state_ok s"
  by (rule device_only_ok [OF device_only_update_controller])

lemma ok_emit: "state_ok (emit s e) = state_ok s"
  by (rule device_only_ok [OF device_only_emit])

lemma ok_handle_update:
  assumes "state_ok s"
  shows "state_ok (snd (handle_update s p))"
proof (cases "set_steering s p")
  case (Inl e)
  then show ?thesis using assms by (simp add: handle_update_def)
next
  case s1: (Inr s1)
  have i1: "state_ok s1" using assms s1 by (rule ok_set_steering)
  show ?thesis
  proof (cases "set_accelerator s1 p")
    case (Inl e)
    then show ?thesis using s1 i1 by (simp add: handle_update_def)
  next
    case s2: (Inr s2)
    have i2: "state_ok s2" using i1 s2 by (rule ok_set_accelerator)
    show ?thesis
    proof (cases "set_brake s2 p")
      case (Inl e)
      then show ?thesis using s1 s2 i2 by (simp add: handle_update_def)
    next
      case s3: (Inr s3)
      have "state_ok s3" using i2 s3 by (rule ok_set_brake)
      then show ?thesis using s1 s2 s3 by (simp add: handle_update_def ok_update_controller)
    qed
  qed
qed

lemma device_only_release_part:
  "device_only s0
     (if controller_type s0 = KEYBOARD then foldl release_key s0 (keys_pressed s0)
      else if controller_type s0 = VGAMEPAD_XBOX then emit (emit s0 PadReset) PadUpdate
      else s0)"
  by (simp add: device_only_foldl_release device_only_refl device_only_emit2 device_only_emit)

lemma release_all_inputs_control_state:
  "control_state (release_all_inputs s) = (Num 0, Num 0, Num 0, False, False)"
proof -
  let ?s0 = "s\<lparr>current_steering := Num 0, current_accelerator := Num 0,
                 current_brake := Num 0, handbrake_pressed := False,
                 horn_pressed := False\<rparr>"
  let ?s1 = "if controller_type ?s0 = KEYBOARD then foldl release_key ?s0 (keys_pressed ?s0)
      else if controller_type ?s0 = VGAMEPAD_XBOX then emit (emit ?s0 PadReset) PadUpdate
      else ?s0"
  have "device_only ?s0 ?s1" by (rule device_only_release_part)
  moreover have "device_only ?s1 (update_controller ?s1)" by (rule device_only_update_controller)
  ultimately have "device_only ?s0 (update_controller ?s1)" by (rule device_only_trans)
  then have "control_state (update_controller ?s1) = control_state ?s0"
    by (rule device_only_control_state)
  moreover have "release_all_inputs s = update_controller ?s1"
    by (simp add: release_all_inputs_def Let_def)
  ultimately show ?thesis by (simp add: control_state_def)
qed

lemma release_all_inputs_rest:
  "max_steering_angle (release_all_inputs s) = max_steering_angle s
   \<and> connected_clients (release_all_inputs s) = connected_clients s
   \<and> controller_type (release_all_inputs s) = controller_type s"
proof -
  let ?s0 = "s\<lparr>current_steering := Num 0, current_accelerator := Num 0,
                 current_brake := Num 0, handbrake_pressed := False,
                 horn_pressed := False\<rparr>"
  let ?s1 = "if controller_type ?s0 = KEYBOARD then foldl release_key ?s0 (keys_pressed ?s0)
      else if controller_type ?s0 = VGAMEPAD_XBOX then emit (emit ?s0 PadReset) PadUpdate
      else ?s0"
  have "device_only ?s0 ?s1" by (rule device_only_release_part)
  moreover have "device_only ?s1 (update_controller ?s1)" by (rule device_only_update_controller)
  ultimately have "device_only ?s0 (update_controller ?s1)" by (rule device_only_trans)
  moreover have "release_all_inputs s = update_controller ?s1"
    by (simp add: release_all_inputs_def Let_def)
  ultimately have "device_only ?s0 (release_all_inputs s)" by simp
  then show ?thesis by (simp add: device_only_def)
qed

lemma ok_release_all_inputs: "0 \<le> max_steering_angle s \<Longrightarrow> state_ok (release_all_inputs s)"
  using release_all_inputs_control_state [of s] release_all_inputs_rest [of s]
  by (simp add: state_ok_def in_domain_def control_state_def)

lemma ok_handbrake: "state_ok (s\<lparr>handbrake_pressed := b\<rparr>) = state_ok s"
  by (simp add: state_ok_def in_domain_def)

lemma ok_horn: "state_ok (s\<lparr>horn_pressed := b\<rparr>) = state_ok s"
  by (simp add: state_ok_def in_domain_def)

lemma ok_handle_message_try:
  assumes "state_ok s"
  shows "state_ok (snd (handle_message_try loads s m))"
proof (cases "loads m")
  case (Inl e)
  then show ?thesis using assms by (simp add: handle_message_try_def)
next
  case d: (Inr data)
  show ?thesis
  proof (cases "py_get data ''command'' JNull")
    case (Inl e)
    then show ?thesis using assms d by (simp add: handle_message_try_def)
  next
    case c: (Inr command)
    show ?thesis
    proof (cases "py_get data ''data'' (JObj [])")
      case (Inl e)
      then show ?thesis using assms d c by (simp add: handle_message_try_def)
    next
      case p: (Inr payload)
      have m: "0 \<le> max_steering_angle s" using assms by (simp add: state_ok_def)
      show ?thesis
        using assms
        by (simp add: handle_message_try_def d c p ok_update_controller ok_handbrake
            ok_horn ok_handle_update ok_release_all_inputs [OF m])
    qed
  qed
qed

lemma ok_handle_message: "state_ok s \<Longrightarrow> state_ok (snd (handle_message loads s c m))"
  using ok_handle_message_try [of s loads m]
  by (auto simp: handle_message_def ok_emit split: prod.splits option.splits)

lemma ok_register: "state_ok (register_client s c) = state_ok s"
  by (simp add: register_client_def state_ok_def in_domain_def)

lemma ok_unregister:
  assumes "state_ok s"
  shows "state_ok (unregister_client s c)"
proof -
  let ?s1 = "s\<lparr>connected_clients := connected_clients s - {c}\<rparr>"
  have i: "state_ok ?s1" using assms by (simp add: state_ok_def in_domain_def)
  then have "0 \<le> max_steering_angle ?s1" by (simp add: state_ok_def)
  then have "state_ok (release_all_inputs ?s1)" by (rule ok_release_all_inputs)
  with i show ?thesis by (simp add: unregister_client_def Let_def)
qed

lemma ok_step: "state_ok s \<Longrightarrow> state_ok (step loads s ev)"
  by (cases ev) (simp_all add: ok_register ok_handle_message ok_unregister)

lemma ok_run: "state_ok s \<Longrightarrow> state_ok (run loads s evs)"
  unfolding run_def
  by (induction evs arbitrary: s) (simp_all add: ok_step)

lemma ok_init: "state_ok (init_server ct)"
  by (simp add: state_ok_def in_domain_def init_server_def)

text \<open>
  C2.  From the initial state, after every sequence of connects, messages (the
  \<^verbatim>\<open>reset\<close> command among them) and disconnects, steering is a finite number in
  \<open>[-max_steering_angle, max_steering_angle]\<close> and accelerator and brake are finite
  numbers in \<open>[0, 1]\<close>; the two buttons are booleans by their type.  A prefix of a
  sequence is a sequence, so this holds after each step.
\<close>

theorem control_state_always_in_domain:
  "in_domain (run loads (init_server ct) evs)"
  using ok_run [OF ok_init, of loads ct evs] by (simp add: state_ok_def)

section \<open>The update command\<close>

lemma finite_number_as_num: "finite_number v = Some x \<Longrightarrow> as_num v = Some (Num x)"
  by (induction v rule: finite_number.induct) (auto split: if_splits)


lemma set_steering_absent: "map_of d ''steering'' = None \<Longrightarrow> set_steering s (JObj d) = Inr s"
  by (simp add: set_steering_def)

lemma set_accelerator_absent:
  "map_of d ''accelerator'' = None \<Longrightarrow> set_accelerator s (JObj d) = Inr s"
  by (simp add: set_accelerator_def)

lemma set_brake_absent: "map_of d ''brake'' = None \<Longrightarrow> set_brake s (JObj d) = Inr s"
  by (simp add: set_brake_def)

lemma set_steering_finite:
  assumes "map_of d ''steering'' = Some v" and "finite_number v = Some x"
  shows "set_steering s (JObj d) =
    Inr (s\<lparr>current_steering :=
            Num (max (- max_steering_angle s) (min (max_steering_angle s) x))\<rparr>)"
  using assms by (simp add: set_steering_def finite_number_as_num clamp_Num)



lemma handle_message_try_update:
  assumes "loads message = Inr (JObj obj)"
    and "map_of obj ''command'' = Some (JStr ''update'')"
    and "map_of obj ''data'' = Some payload"
  shows "handle_message_try loads s message = handle_update s payload"
  using assms by (simp add: handle_message_try_def)




lemma update_controller_fields:
  "connected_clients (update_controller s) = connected_clients s"
  "current_steering (update_controller s) = current_steering s"
  "max_steering_angle (update_controller s) = max_steering_angle s"
  "current_accelerator (update_controller s) = current_accelerator s"
  "current_brake (update_controller s) = current_brake s"
  "handbrake_pressed (update_controller s) = handbrake_pressed s"
  "horn_pressed (update_controller s) = horn_pressed s"
  "controller_type (update_controller s) = controller_type s"
  using device_only_update_controller [of s] by (simp_all add: device_only_def)






section \<open>Absent fields, undecodable messages, reset, errors inside an update\<close>

lemma set_steering_frame:
  assumes "set_steering s (JObj d) = Inr s1"
  shows "current_accelerator s1 = current_accelerator s
    \<and> current_brake s1 = current_brake s
    \<and> handbrake_pressed s1 = handbrake_pressed s
    \<and> horn_pressed s1 = horn_pressed s
    \<and> (map_of d ''steering'' = None \<longrightarrow> current_steering s1 = current_steering s)"
  using set_steering_cases [OF assms] assms set_steering_absent [of d s] by auto

lemma set_accelerator_frame:
  assumes "set_accelerator s (JObj d) = Inr s1"
  shows "current_steering s1 = current_steering s
    \<and> current_brake s1 = current_brake s
    \<and> handbrake_pressed s1 = handbrake_pressed s
    \<and> horn_pressed s1 = horn_pressed s
    \<and> (map_of d ''accelerator'' = None \<longrightarrow> current_accelerator s1 = current_accelerator s)"
  using set_accelerator_cases [OF assms] assms set_accelerator_absent [of d s] by auto

lemma set_brake_frame:
  assumes "set_brake s (JObj d) = Inr s1"
  shows "current_steering s1 = current_steering s
    \<and> current_accelerator s1 = current_accelerator s
    \<and> handbrake_pressed s1 = handbrake_pressed s
    \<and> horn_pressed s1 = horn_pressed s
    \<and> (map_of d ''brake'' = None \<longrightarrow> current_brake s1 = current_brake s)"
  using set_brake_cases [OF assms] assms set_brake_absent [of d s] by auto

lemma handle_update_frame:
  "handbrake_pressed (snd (handle_update s (JObj d))) = handbrake_pressed s
   \<and> horn_pressed (snd (handle_update s (JObj d))) = horn_pressed s
   \<and> (map_of d ''steering'' = None \<longrightarrow>
        current_steering (snd (handle_update s (JObj d))) = current_steering s)
   \<and> (map_of d ''accelerator'' = None \<longrightarrow>
        current_accelerator (snd (handle_update s (JObj d))) = current_accelerator s)
   \<and> (map_of d ''brake'' = None \<longrightarrow>
        current_brake (snd (handle_update s (JObj d))) = current_brake s)"
proof (cases "set_steering s (JObj d)")
  case (Inl e)
  then show ?thesis by (simp add: handle_update_def)
next
  case s1: (Inr s1)
  note f1 = set_steering_frame [OF s1]
  show ?thesis
  proof (cases "set_accelerator s1 (JObj d)")
    case (Inl e)
    then show ?thesis using s1 f1 by (simp add: handle_update_def)
  next
    case s2: (Inr s2)
    note f2 = set_accelerator_frame [OF s2]
    show ?thesis
    proof (cases "set_brake s2 (JObj d)")
      case (Inl e)
      then show ?thesis using s1 s2 f1 f2 by (simp add: handle_update_def)
    next
      case s3: (Inr s3)
      note f3 = set_brake_frame [OF s3]
      show ?thesis using s1 s2 s3 f1 f2 f3
        by (simp add: handle_update_def update_controller_fields)
    qed
  qed
qed

lemma handle_message_fields:
  "control_state (snd (handle_message loads s c message)) =
     control_state (snd (handle_message_try loads s message))"
  by (simp add: handle_message_def control_state_def emit_def split: prod.split option.split)

lemma handle_message_try_update_nodata:
  assumes "loads message = Inr (JObj obj)"
    and "map_of obj ''command'' = Some (JStr ''update'')"
    and "map_of obj ''data'' = None"
  shows "handle_message_try loads s message = handle_update s (JObj [])"
  using assms by (simp add: handle_message_try_def)

text \<open>
  C4.  An \<^verbatim>\<open>update\<close> message whose \<^verbatim>\<open>data\<close> is an object (or is missing, which
  the handler reads as the empty object): each of steering, accelerator and brake
  whose key is absent from \<^verbatim>\<open>data\<close> keeps its prior value, and handbrake and horn keep
  theirs.  This holds whatever the present fields are, also when one of them raises.
  The instance sends only \<^verbatim>\<open>{"brake": 50}\<close>.
\<close>

theorem absent_fields_unchanged:
  assumes dec: "loads message = Inr (JObj obj)"
    and cmd: "map_of obj ''command'' = Some (JStr ''update'')"
    and pay: "map_of obj ''data'' = Some (JObj d) \<or> (map_of obj ''data'' = None \<and> d = [])"
  shows "(map_of d ''steering'' = None \<longrightarrow>
            current_steering (snd (handle_message loads s c message)) = current_steering s)
       \<and> (map_of d ''accelerator'' = None \<longrightarrow>
            current_accelerator (snd (handle_message loads s c message)) = current_accelerator s)
       \<and> (map_of d ''brake'' = None \<longrightarrow>
            current_brake (snd (handle_message loads s c message)) = current_brake s)
       \<and> handbrake_pressed (snd (handle_message loads s c message)) = handbrake_pressed s
       \<and> horn_pressed (snd (handle_message loads s c message)) = horn_pressed s"
proof -
  have "handle_message_try loads s message = handle_update s (JObj d)"
    using pay handle_message_try_update [of loads message obj "JObj d" s]
      handle_message_try_update_nodata [of loads message obj s] dec cmd by auto
  then have "control_state (snd (handle_message loads s c message)) =
      control_state (snd (handle_update s (JObj d)))"
    by (simp add: handle_message_fields)
  then show ?thesis
    using handle_update_frame [of s d] by (simp add: control_state_def)
qed

theorem absent_fields_unchanged_witness:
  "current_steering (snd (handle_message
      (\<lambda>m. Inr (update_message [(''brake'', JInt 50)]))
      ((init_server NONE)\<lparr>current_steering := Num 120, current_accelerator := Num (1 / 2),
         handbrake_pressed := True\<rparr>) 0 ''m'')) = Num 120
   \<and> current_accelerator (snd (handle_message
      (\<lambda>m. Inr (update_message [(''brake'', JInt 50)]))
      ((init_server NONE)\<lparr>current_steering := Num 120, current_accelerator := Num (1 / 2),
         handbrake_pressed := True\<rparr>) 0 ''m'')) = Num (1 / 2)
   \<and> handbrake_pressed (snd (handle_message
      (\<lambda>m. Inr (update_message [(''brake'', JInt 50)]))
      ((init_server NONE)\<lparr>current_steering := Num 120, current_accelerator := Num (1 / 2),
         handbrake_pressed := True\<rparr>) 0 ''m''))"
  using absent_fields_unchanged
    [of "\<lambda>m. Inr (update_message [(''brake'', JInt 50)])" "''m''"
      "[(''command'', JStr ''update''), (''data'', JObj [(''brake'', JInt 50)])]"
      "[(''brake'', JInt 50)]"
      "(init_server NONE)\<lparr>current_steering := Num 120, current_accelerator := Num (1 / 2),
         handbrake_pressed := True\<rparr>" 0]
  by (simp add: update_message_def init_server_def)













lemma handle_message_try_reset:
  assumes "loads message = Inr (JObj obj)"
    and "map_of obj ''command'' = Some (JStr ''reset'')"
  shows "handle_message_try loads s message = (None, release_all_inputs s)"
  using assms by (simp add: handle_message_try_def)

text \<open>
  C9.  Handling a \<^verbatim>\<open>reset\<close> command leaves the control state neutral (all zero and
  false), from every prior state, and handling the command again immediately after
  leaves the same neutral control state.
\<close>

theorem reset_idempotent:
  assumes dec: "loads message = Inr (JObj obj)"
    and cmd: "map_of obj ''command'' = Some (JStr ''reset'')"
  shows "control_state (snd (handle_message loads s c message)) = neutral
       \<and> control_state (snd (handle_message loads
            (snd (handle_message loads s c message)) c message)) = neutral"
proof -
  have r: "handle_message_try loads t message = (None, release_all_inputs t)" for t
    using handle_message_try_reset [of loads message obj t] dec cmd by simp
  show ?thesis
    by (simp add: handle_message_fields r release_all_inputs_control_state neutral_def)
qed

theorem reset_idempotent_witness:
  "control_state (snd (handle_message (\<lambda>m. Inr (command_message ''reset''))
      ((init_server NONE)\<lparr>current_steering := Num 450, current_accelerator := Num 1,
         horn_pressed := True\<rparr>) 0 ''m'')) = (Num 0, Num 0, Num 0, False, False)
   \<and> control_state (snd (handle_message (\<lambda>m. Inr (command_message ''reset''))
      (snd (handle_message (\<lambda>m. Inr (command_message ''reset''))
      ((init_server NONE)\<lparr>current_steering := Num 450, current_accelerator := Num 1,
         horn_pressed := True\<rparr>) 0 ''m'')) 0 ''m'')) = (Num 0, Num 0, Num 0, False, False)"
  using reset_idempotent
    [of "\<lambda>m. Inr (command_message ''reset'')" "''m''" "[(''command'', JStr ''reset'')]"
      "(init_server NONE)\<lparr>current_steering := Num 450, current_accelerator := Num 1,
         horn_pressed := True\<rparr>" 0]
  by (simp add: command_message_def neutral_def)


lemma not_number_truediv: "as_num a = None \<Longrightarrow> truediv_100 a = Inl TypeError"
  by (cases a) simp_all

lemma set_accelerator_not_number:
  "map_of d ''accelerator'' = Some a \<Longrightarrow> as_num a = None \<Longrightarrow>
   set_accelerator s (JObj d) = Inl TypeError"
  by (simp add: set_accelerator_def not_number_truediv)

lemma set_brake_not_number:
  "map_of d ''brake'' = Some a \<Longrightarrow> as_num a = None \<Longrightarrow>
   set_brake s (JObj d) = Inl TypeError"
  by (simp add: set_brake_def not_number_truediv)

text \<open>
  C10.  An \<^verbatim>\<open>update\<close> message whose \<^verbatim>\<open>steering\<close> is a finite number and whose
  \<^verbatim>\<open>accelerator\<close> (or, with no accelerator, whose \<^verbatim>\<open>brake\<close>) is not a number:
  \<open>handle_message\<close> raises nothing, the steering is assigned its clamped value, and the
  only call appended is the \<^verbatim>\<open>logger.error\<close> line, so the device is not updated.  In
  the instance the steering goes from 0 to 50 and the gamepad receives no call.
\<close>

theorem update_error_not_atomic:
  assumes dec: "loads message = Inr (JObj obj)"
    and cmd: "map_of obj ''command'' = Some (JStr ''update'')"
    and pay: "map_of obj ''data'' = Some (JObj d)"
    and st: "map_of d ''steering'' = Some v" and fin: "finite_number v = Some x"
    and bad: "(\<exists>a. map_of d ''accelerator'' = Some a \<and> as_num a = None)
       \<or> (map_of d ''accelerator'' = None \<and> (\<exists>b. map_of d ''brake'' = Some b \<and> as_num b = None))"
  shows "handle_message loads s c message =
    (None, emit (s\<lparr>current_steering :=
                     Num (max (- max_steering_angle s) (min (max_steering_angle s) x))\<rparr>)
             (LogError ''Error handling message''))"
proof -
  let ?s1 = "s\<lparr>current_steering :=
                     Num (max (- max_steering_angle s) (min (max_steering_angle s) x))\<rparr>"
  have s1: "set_steering s (JObj d) = Inr ?s1"
    using st fin by (rule set_steering_finite)
  have "handle_update s (JObj d) = (Some TypeError, ?s1)"
    using bad
  proof
    assume "\<exists>a. map_of d ''accelerator'' = Some a \<and> as_num a = None"
    then have "set_accelerator ?s1 (JObj d) = Inl TypeError"
      by (auto simp: set_accelerator_not_number)
    with s1 show ?thesis by (simp add: handle_update_def)
  next
    assume b: "map_of d ''accelerator'' = None
      \<and> (\<exists>b. map_of d ''brake'' = Some b \<and> as_num b = None)"
    then have "set_accelerator ?s1 (JObj d) = Inr ?s1"
      by (simp add: set_accelerator_absent)
    moreover have "set_brake ?s1 (JObj d) = Inl TypeError"
      using b by (auto simp: set_brake_not_number)
    ultimately show ?thesis using s1 by (simp add: handle_update_def)
  qed
  then have "handle_message_try loads s message = (Some TypeError, ?s1)"
    using handle_message_try_update [of loads message obj "JObj d" s] dec cmd pay by simp
  then show ?thesis by (simp add: handle_message_def)
qed

theorem update_error_not_atomic_witness:
  "handle_message
     (\<lambda>m. Inr (update_message [(''steering'', JInt 50), (''accelerator'', JStr ''fast'')]))
     (init_server VGAMEPAD_XBOX) 0 ''m''
   = (None, (init_server VGAMEPAD_XBOX)\<lparr>current_steering := Num 50,
        effects := [LogError ''Error handling message'']\<rparr>)"
  using update_error_not_atomic
    [of "\<lambda>m. Inr (update_message [(''steering'', JInt 50), (''accelerator'', JStr ''fast'')])"
      "''m''"
      "[(''command'', JStr ''update''),
        (''data'', JObj [(''steering'', JInt 50), (''accelerator'', JStr ''fast'')])]"
      "[(''steering'', JInt 50), (''accelerator'', JStr ''fast'')]"
      "JInt 50" 50 "init_server VGAMEPAD_XBOX" 0]
  by (simp add: update_message_def init_server_def float_limit_def emit_def)

section \<open>The joystick axes\<close>

subsection \<open>Rounding to a double\<close>

lemma pow2_powi: "pow2 k = 2 powi k"
  by (simp add: pow2_def power_int_def inverse_eq_divide power_one_over)

lemma pow2_pos: "0 < pow2 k"
  by (simp add: pow2_powi)

lemma pow2_mono: "a \<le> b \<Longrightarrow> pow2 a \<le> pow2 b"
  by (simp add: pow2_powi power_int_increasing)

lemma pow2_strict_mono: "a < b \<Longrightarrow> pow2 a < pow2 b"
  by (simp add: pow2_powi power_int_strict_increasing)

lemma pow2_le_iff: "pow2 a \<le> pow2 b \<longleftrightarrow> a \<le> b"
  using pow2_mono [of a b] pow2_strict_mono [of b a] by (auto simp: not_le [symmetric])

lemma scan_eq:
  "pow2 k \<le> a \<Longrightarrow> a < pow2 (k + 1) \<Longrightarrow> - 1074 \<le> k \<Longrightarrow> k + 1074 < int n \<Longrightarrow>
   scan a n = k"
proof (induction n)
  case 0
  then show ?case by simp
next
  case (Suc m)
  show ?case
  proof (cases "pow2 (int m - 1074) \<le> a")
    case True
    then have "pow2 (int m - 1074) < pow2 (k + 1)" using Suc.prems(2) by simp
    then have "int m - 1074 < k + 1"
      using pow2_le_iff [of "k + 1" "int m - 1074"] by (simp add: not_le [symmetric])
    with Suc.prems(4) True show ?thesis by simp
  next
    case False
    then have "pow2 k < pow2 (int m - 1074)" using Suc.prems(1) by simp
    then have "k < int m - 1074"
      using pow2_le_iff [of "int m - 1074" k] by (simp add: not_le [symmetric])
    with False Suc show ?thesis by simp
  qed
qed

lemma scan_low: "a < pow2 (- 1074) \<Longrightarrow> scan a n = - 1075"
proof (induction n)
  case 0
  show ?case by simp
next
  case (Suc m)
  have "pow2 (- 1074) \<le> pow2 (int m - 1074)" by (rule pow2_mono) simp
  with Suc show ?case by simp
qed

lemma scan_lower: "scan a n \<noteq> - 1075 \<Longrightarrow> pow2 (scan a n) \<le> a"
  by (induction n) (auto split: if_splits)

lemma scan_at_least: "- 1075 \<le> scan a n"
  by (induction n) auto

lemma scan_none: "scan a n = - 1075 \<Longrightarrow> 0 < n \<Longrightarrow> a < pow2 (- 1074)"
proof (induction n)
  case 0
  then show ?case by simp
next
  case (Suc m)
  then show ?case by (cases m) (auto split: if_splits)
qed

lemma expo_eq:
  "pow2 k \<le> \<bar>x\<bar> \<Longrightarrow> \<bar>x\<bar> < pow2 (k + 1) \<Longrightarrow> - 1074 \<le> k \<Longrightarrow> k \<le> 1024 \<Longrightarrow> expo x = k"
  unfolding expo_def by (rule scan_eq) simp_all

lemma round_even_near: "\<bar>of_int (round_even z) - z\<bar> \<le> 1 / 2"
  unfolding round_even_def Let_def by (auto simp: abs_if) linarith+

lemma round_even_small: "\<bar>z\<bar> < 1 / 2 \<Longrightarrow> round_even z = 0"
  using round_even_near [of z] by linarith

lemma flr_0: "flr 0 = 0"
  by (simp add: flr_def round_even_def Let_def)

lemma flr_eval:
  assumes "pow2 k \<le> \<bar>x\<bar>" and "\<bar>x\<bar> < pow2 (k + 1)" and "- 1022 \<le> k" and "k \<le> 1023"
  shows "flr x = of_int (round_even (x / pow2 (k - 52))) * pow2 (k - 52)"
proof -
  have "expo x = k" using assms by (intro expo_eq) simp_all
  then show ?thesis using assms(3) by (simp add: flr_def max_def Let_def)
qed

text \<open>The rounded value is at most twice the exact one in magnitude.\<close>

lemma flr_le: "\<bar>flr y\<bar> \<le> 2 * \<bar>y\<bar>"
proof -
  define u where "u = pow2 (max (expo y) (- 1022) - 52)"
  have u: "0 < u" by (simp add: u_def pow2_pos)
  have r: "flr y = of_int (round_even (y / u)) * u" by (simp add: flr_def u_def Let_def)
  have "\<bar>of_int (round_even (y / u)) - y / u\<bar> \<le> 1 / 2" by (rule round_even_near)
  then have "\<bar>of_int (round_even (y / u)) - y / u\<bar> * u \<le> 1 / 2 * u"
    using u by (intro mult_right_mono) simp_all
  moreover have "flr y - y = (of_int (round_even (y / u)) - y / u) * u"
    using u by (simp add: r left_diff_distrib)
  then have "\<bar>of_int (round_even (y / u)) - y / u\<bar> * u = \<bar>flr y - y\<bar>"
    using u by (simp add: abs_mult)
  ultimately have near: "\<bar>flr y - y\<bar> \<le> u / 2" by simp
  show ?thesis
  proof (cases "expo y = - 1075")
    case True
    then have small: "\<bar>y\<bar> < pow2 (- 1074)" unfolding expo_def by (rule scan_none) simp
    from True have u': "u = pow2 (- 1074)" by (simp add: u_def)
    show ?thesis
    proof (cases "\<bar>y\<bar> < u / 2")
      case True
      then have "\<bar>y\<bar> / u < 1 / 2" using u by (simp add: field_simps)
      then have "\<bar>y / u\<bar> < 1 / 2" using u by simp
      then have "round_even (y / u) = 0" by (rule round_even_small)
      then show ?thesis by (simp add: r)
    next
      case False
      with near show ?thesis by linarith
    qed
  next
    case False
    then have low: "pow2 (expo y) \<le> \<bar>y\<bar>" unfolding expo_def by (rule scan_lower)
    have "- 1075 \<le> expo y" unfolding expo_def by (rule scan_at_least)
    with False have "- 1074 \<le> expo y" by simp
    then have "max (expo y) (- 1022) - 52 \<le> expo y" by simp
    then have "u \<le> pow2 (expo y)" unfolding u_def by (rule pow2_mono)
    with low have "u \<le> \<bar>y\<bar>" by simp
    with near show ?thesis by linarith
  qed
qed

lemma fl_Num: "\<bar>y\<bar> \<le> 2 ^ 1022 \<Longrightarrow> fl y = Num (flr y)"
  using flr_le [of y] by (simp add: fl_def Let_def) linarith

subsection \<open>The calls of the joystick variant\<close>

lemma flr_1: "flr 1 = 1"
  by (subst flr_eval [of 0]) (simp_all add: pow2_def round_even_def)

lemma flr_half: "flr (1 / 2) = 1 / 2"
  by (subst flr_eval [of "- 1"]) (simp_all add: pow2_def round_even_def)

lemma flr_mid: "flr (32767 / 2) = 32767 / 2"
  by (subst flr_eval [of 13]) (simp_all add: pow2_def round_even_def)

lemma fl_0: "fl 0 = Num 0"
  by (simp add: fl_def flr_0)

lemma vjoy_neutral:
  assumes "current_steering s = Num 0" and "current_accelerator s = Num 0"
    and "current_brake s = Num 0" and "max_steering_angle s \<noteq> 0"
  shows "effects (update_vjoy_controller s) = effects s @
    [SetAxis HID_USAGE_X 16384, SetAxis HID_USAGE_Y 32767, SetAxis HID_USAGE_Z 1,
     SetButton 1 (handbrake_pressed s), SetButton 2 (horn_pressed s)]"
proof -
  have a: "fl 1 = Num 1" "fl (1 / 2) = Num (1 / 2)" "fl (32767 / 2) = Num (32767 / 2)"
    by (simp_all add: fl_Num flr_1 flr_half flr_mid)
  show ?thesis
    using assms
    by (simp add: update_vjoy_controller_def num_truediv_def fl_0 py_max_def py_min_def
        float_op_def a trunc_def emit_def Let_def)
qed

lemma fl_bounded: "\<bar>y\<bar> \<le> B \<Longrightarrow> B \<le> 2 ^ 1022 \<Longrightarrow> fl y = Num (flr y) \<and> \<bar>flr y\<bar> \<le> 2 * B"
  using flr_le [of y] fl_Num [of y] by simp

text \<open>
  C8, as amended.  In the joystick emulation variant, for a control state within its
  domain and \<open>0 < max_steering_angle \<le> 2 ^ 1000\<close>, the calls appended are: the X axis
  with \<open>int((n + 1) / 2 * 32767) + 1\<close>, where \<open>n\<close> is steering divided by
  \<open>max_steering_angle\<close> and clamped to \<open>[-1, 1]\<close>; the Y axis with \<open>32768 - value\<close>, where
  \<open>value = int(accelerator * 32767) + 1\<close>; the Z axis with \<open>int(brake * 32767) + 1\<close>, not
  inverted; and the two buttons.  Every operation is rounded to a double (\<open>flr\<close>)
  before the next, as the code computes it.  The inversion subtracts from 32768, which
  is \<open>AXIS_MAX + 1\<close>, not from \<open>AXIS_MAX\<close>.  The instance has a steering and an
  accelerator at which the rounding decides the integers: in exact arithmetic they
  would be X 66 and Y 32767, in doubles they are X 65 and Y 32766.
\<close>

theorem vjoy_axis_values:
  assumes st: "current_steering s = Num x"
    and ac: "current_accelerator s = Num a"
    and br: "current_brake s = Num b"
    and dom: "in_domain s"
    and M: "0 < max_steering_angle s" and M': "max_steering_angle s \<le> 2 ^ 1000"
  shows "effects (update_vjoy_controller s) = effects s @
    [SetAxis HID_USAGE_X
       (trunc (flr (flr (flr (max (- 1) (min 1
          (flr (flr x / max_steering_angle s))) + 1) / 2) * 32767)) + 1),
     SetAxis HID_USAGE_Y (32768 - (trunc (flr (flr a * 32767)) + 1)),
     SetAxis HID_USAGE_Z (trunc (flr (flr b * 32767)) + 1),
     SetButton 1 (handbrake_pressed s),
     SetButton 2 (horn_pressed s)]"
proof -
  let ?M = "max_steering_angle s"
  have xb: "\<bar>x\<bar> \<le> ?M" and ab: "\<bar>a\<bar> \<le> 1" and bb: "\<bar>b\<bar> \<le> 1"
    using dom st ac br by (auto simp: in_domain_def)
  have big: "(2::real) ^ 1000 \<le> 2 ^ 1022" by simp
  have x1: "fl x = Num (flr x)" and x2: "\<bar>flr x\<bar> \<le> 2 * ?M"
    using fl_bounded [OF xb] M' big by simp_all
  have "\<bar>flr x / ?M\<bar> \<le> 2" using x2 M by (simp add: field_simps)
  then have q: "fl (flr x / ?M) = Num (flr (flr x / ?M))"
    using fl_bounded [of "flr x / ?M" 2] by simp
  define n where "n = max (- 1) (min 1 (flr (flr x / ?M)))"
  have nb: "\<bar>n + 1\<bar> \<le> 2" by (simp add: n_def)
  have n1: "fl (n + 1) = Num (flr (n + 1))" and n1b: "\<bar>flr (n + 1)\<bar> \<le> 4"
    using fl_bounded [OF nb] by simp_all
  have "\<bar>flr (n + 1) / 2\<bar> \<le> 2" using n1b by simp
  then have n2: "fl (flr (n + 1) / 2) = Num (flr (flr (n + 1) / 2))"
    and n2b: "\<bar>flr (flr (n + 1) / 2)\<bar> \<le> 4"
    using fl_bounded [of "flr (n + 1) / 2" 2] by simp_all
  have "\<bar>flr (flr (n + 1) / 2) * 32767\<bar> \<le> 131068" using n2b by (simp add: abs_mult)
  then have n3: "fl (flr (flr (n + 1) / 2) * 32767) = Num (flr (flr (flr (n + 1) / 2) * 32767))"
    using fl_bounded [of "flr (flr (n + 1) / 2) * 32767" 131068] by simp
  have pedal: "fl p = Num (flr p) \<and> fl (flr p * 32767) = Num (flr (flr p * 32767))"
    if "\<bar>p\<bar> \<le> 1" for p
  proof -
    have p1: "fl p = Num (flr p)" and p2: "\<bar>flr p\<bar> \<le> 2"
      using fl_bounded [OF that] by simp_all
    have "\<bar>flr p * 32767\<bar> \<le> 65534" using p2 by (simp add: abs_mult)
    then have "fl (flr p * 32767) = Num (flr (flr p * 32767))"
      using fl_bounded [of "flr p * 32767" 65534] by simp
    with p1 show ?thesis by simp
  qed
  have d: "num_truediv (num_fl (current_steering s)) ?M = Inr (Num (flr x / ?M))"
    using M by (simp add: st x1 num_truediv_def)
  have c: "py_max (Num (- 1)) (py_min (Num 1) (fl (flr x / ?M))) = Num n"
    by (simp add: q clamp_Num n_def)
  show ?thesis
    unfolding update_vjoy_controller_def d
    by (simp add: c float_op_def n1 n2 n3 ac br pedal [OF ab] pedal [OF bb] emit_def
        Let_def n_def [symmetric])
qed


theorem vjoy_axis_values_witness:
  "effects (update_vjoy_controller
      ((init_server VJOY)\<lparr>current_steering := Num (- 7885075813141949 / 8796093022208),
          current_accelerator := Num (35185445863425 / 2 ^ 60),
          current_brake := Num (1 / 2)\<rparr>))
   = [SetAxis HID_USAGE_X 65, SetAxis HID_USAGE_Y 32766, SetAxis HID_USAGE_Z 16384,
      SetButton 1 False, SetButton 2 False]"
proof -
  let ?s = "(init_server VJOY)\<lparr>current_steering := Num (- 7885075813141949 / 8796093022208),
          current_accelerator := Num (35185445863425 / 2 ^ 60),
          current_brake := Num (1 / 2)\<rparr>"
  have h: "current_steering ?s = Num (- 7885075813141949 / 8796093022208)"
    "current_accelerator ?s = Num (35185445863425 / 2 ^ 60)"
    "current_brake ?s = Num (1 / 2)"
    "in_domain ?s" "0 < max_steering_angle ?s" "max_steering_angle ?s \<le> 2 ^ 1000"
    by (simp_all add: init_server_def in_domain_def)
  have e: "max_steering_angle ?s = 900" "effects ?s = []"
    "handbrake_pressed ?s = False" "horn_pressed ?s = False"
    by (simp_all add: init_server_def)
  have f1: "flr (- 7885075813141949 / 8796093022208) = - 7885075813141949 / 8796093022208"
    by (subst flr_eval [of 9]) (simp_all add: pow2_def round_even_def)
  have f2: "flr (- 7885075813141949 / 8796093022208 / 900)
      = - 8971464036285951 / 9007199254740992"
    by (subst flr_eval [of "- 1"]) (simp_all add: pow2_def round_even_def)
  have f3: "max (- 1) (min 1 (- 8971464036285951 / 9007199254740992 :: real))
      = - 8971464036285951 / 9007199254740992"
    by simp
  have f4: "flr (- 8971464036285951 / 9007199254740992 + 1)
      = 35735218455041 / 9007199254740992"
    by (subst flr_eval [of "- 8"]) (simp_all add: pow2_def round_even_def)
  have f5: "flr (35735218455041 / 9007199254740992 / 2)
      = 35735218455041 / 18014398509481984"
    by (subst flr_eval [of "- 9"]) (simp_all add: pow2_def round_even_def)
  have f6: "flr (35735218455041 / 18014398509481984 * 32767)
      = 2286984185774079 / 35184372088832"
    by (subst flr_eval [of 6]) (simp_all add: pow2_def round_even_def)
  have f7: "trunc (2286984185774079 / 35184372088832) = 64"
    by (simp add: trunc_def)
  have g1: "flr (35185445863425 / 2 ^ 60) = 35185445863425 / 2 ^ 60"
    by (subst flr_eval [of "- 15"]) (simp_all add: pow2_def round_even_def)
  have g2: "flr (35185445863425 / 2 ^ 60 * 32767) = 1"
    by (subst flr_eval [of "- 1"]) (simp_all add: pow2_def round_even_def)
  have g3: "trunc 1 = 1"
    by (simp add: trunc_def)
  have b1: "flr (1 / 2) = 1 / 2"
    by (rule flr_half)
  have b2: "flr (1 / 2 * 32767) = 32767 / 2"
    using flr_mid by simp
  have b3: "trunc (32767 / 2) = 16383"
    by (simp add: trunc_def)
  show ?thesis
    using vjoy_axis_values [OF h]
    unfolding e f1 f2 f3 f4 f5 f6 f7 g1 g2 g3 b1 b2 b3
    by simp
qed

text \<open>
  C8 as stated fails: with the accelerator at 0 the value is 1, and the Y axis receives
  32767, not \<open>AXIS_MAX - value = 32766\<close>.
\<close>

theorem vjoy_accelerator_axis_counterexample:
  "SetAxis HID_USAGE_Y (claimed_accelerator_axis 0)
     \<notin> set (effects (update_vjoy_controller (init_server VJOY)))
   \<and> SetAxis HID_USAGE_Y (claimed_accelerator_axis 0 + 1)
     \<in> set (effects (update_vjoy_controller (init_server VJOY)))"
  using vjoy_neutral [of "init_server VJOY"]
  by (simp add: claimed_accelerator_axis_def init_server_def trunc_def)

section \<open>Disconnect of the last client\<close>

lemma device_only_fields_foldl:
  "controller_type (foldl release_key s ks) = controller_type s"
  using device_only_foldl_release [of s ks] by (simp add: device_only_def)

lemma foldl_release_key_all:
  "distinct ks \<Longrightarrow> set ks \<subseteq> set (keys_pressed s) \<Longrightarrow>
   effects (foldl release_key s ks) = effects s @ map KeyUp ks
   \<and> keys_pressed (foldl release_key s ks) = filter (\<lambda>k. k \<notin> set ks) (keys_pressed s)"
proof (induction ks arbitrary: s)
  case Nil
  show ?case by simp
next
  case (Cons k ks)
  let ?t = "release_key s k"
  have k: "k \<in> set (keys_pressed s)" using Cons.prems by simp
  then have t: "effects ?t = effects s @ [KeyUp k]"
    "keys_pressed ?t = removeAll k (keys_pressed s)"
    by (simp_all add: release_key_def)
  have "distinct ks" and "set ks \<subseteq> set (keys_pressed ?t)"
    using Cons.prems by (auto simp: t)
  then have "effects (foldl release_key ?t ks) = effects ?t @ map KeyUp ks
    \<and> keys_pressed (foldl release_key ?t ks) = filter (\<lambda>k. k \<notin> set ks) (keys_pressed ?t)"
    by (rule Cons.IH)
  then show ?case
    by (simp add: t removeAll_filter_not_eq conj_commute cong: conj_cong)
       (metis)
qed


lemma keyboard_neutral_idle:
  assumes "keys_pressed s = []" and "control_state s = neutral"
  shows "update_keyboard_controller s = s"
  using assms
  by (simp add: update_keyboard_controller_def steer_keys_def switch_key_def release_key_def
      control_state_def neutral_def Let_def)

lemma release_all_inputs_keyboard:
  assumes ct: "controller_type s = KEYBOARD" and d: "distinct (keys_pressed s)"
  shows "effects (release_all_inputs s) = effects s @ map KeyUp (keys_pressed s)
    \<and> keys_pressed (release_all_inputs s) = []"
proof -
  let ?s0 = "s\<lparr>current_steering := Num 0, current_accelerator := Num 0,
                 current_brake := Num 0, handbrake_pressed := False,
                 horn_pressed := False\<rparr>"
  let ?s1 = "foldl release_key ?s0 (keys_pressed ?s0)"
  have r: "release_all_inputs s = update_keyboard_controller ?s1"
    using ct
    by (simp add: release_all_inputs_def update_controller_def Let_def
        device_only_fields_foldl)
  have f: "effects ?s1 = effects ?s0 @ map KeyUp (keys_pressed ?s0)
    \<and> keys_pressed ?s1 = filter (\<lambda>k. k \<notin> set (keys_pressed ?s0)) (keys_pressed ?s0)"
    using d by (intro foldl_release_key_all) simp_all
  then have k: "keys_pressed ?s1 = []" by simp
  have "control_state ?s1 = control_state ?s0"
    by (rule device_only_control_state [OF device_only_foldl_release])
  then have "control_state ?s1 = neutral" by (simp add: control_state_def neutral_def)
  with k have "update_keyboard_controller ?s1 = ?s1" by (rule keyboard_neutral_idle)
  with r f k show ?thesis by simp
qed


lemma release_all_inputs_vgamepad:
  assumes ct: "controller_type s = VGAMEPAD_XBOX" and M: "max_steering_angle s \<noteq> 0"
  shows "effects (release_all_inputs s) = effects s @
    [PadReset, PadUpdate, LeftJoystickFloat (Num 0) (Num 0), RightTriggerFloat (Num 0),
     LeftTriggerFloat (Num 0), ReleaseButton XUSB_GAMEPAD_A, ReleaseButton XUSB_GAMEPAD_X,
     PadUpdate]"
  using ct M
  by (simp add: release_all_inputs_def update_controller_def update_vgamepad_controller_def
      emit_def num_truediv_def py_max_def py_min_def Let_def)

lemma release_all_inputs_vjoy:
  assumes ct: "controller_type s = VJOY" and M: "max_steering_angle s \<noteq> 0"
  shows "effects (release_all_inputs s) = effects s @
    [SetAxis HID_USAGE_X 16384, SetAxis HID_USAGE_Y 32767, SetAxis HID_USAGE_Z 1,
     SetButton 1 False, SetButton 2 False]"
proof -
  let ?s0 = "s\<lparr>current_steering := Num 0, current_accelerator := Num 0,
                 current_brake := Num 0, handbrake_pressed := False,
                 horn_pressed := False\<rparr>"
  have "release_all_inputs s = update_vjoy_controller ?s0"
    using ct by (simp add: release_all_inputs_def update_controller_def Let_def)
  moreover have "effects (update_vjoy_controller ?s0) = effects ?s0 @
    [SetAxis HID_USAGE_X 16384, SetAxis HID_USAGE_Y 32767, SetAxis HID_USAGE_Z 1,
     SetButton 1 (handbrake_pressed ?s0), SetButton 2 (horn_pressed ?s0)]"
    using M by (intro vjoy_neutral) simp_all
  ultimately show ?thesis by simp
qed

lemma release_all_inputs_none:
  assumes ct: "controller_type s = NONE"
  shows "effects (release_all_inputs s) = effects s"
  using ct by (simp add: release_all_inputs_def update_controller_def Let_def)

text \<open>
  C3.  When the registry holds exactly the disconnecting client, \<open>unregister_client\<close>
  empties it and runs \<open>release_all_inputs\<close>: the control state is neutral afterwards, and
  the device receives the reset followed by the apply of the neutral state.  On the
  gamepad that is \<^verbatim>\<open>reset\<close>, \<^verbatim>\<open>update\<close> and then the neutral axes and buttons with
  one more \<^verbatim>\<open>update\<close>; on the keyboard every held key is released, after which the
  apply has nothing left to change; the joystick library has no reset call, and the
  apply writes the neutral axes and buttons.  When another client remains, only the
  registry changes.
\<close>

theorem last_disconnect_resets:
  "(connected_clients s = {c} \<longrightarrow>
      connected_clients (unregister_client s c) = {}
      \<and> control_state (unregister_client s c) = neutral
      \<and> unregister_client s c = release_all_inputs (s\<lparr>connected_clients := {}\<rparr>)
      \<and> (controller_type s = VGAMEPAD_XBOX \<and> max_steering_angle s \<noteq> 0 \<longrightarrow>
           effects (unregister_client s c) = effects s @
             [PadReset, PadUpdate, LeftJoystickFloat (Num 0) (Num 0),
              RightTriggerFloat (Num 0), LeftTriggerFloat (Num 0),
              ReleaseButton XUSB_GAMEPAD_A, ReleaseButton XUSB_GAMEPAD_X, PadUpdate])
      \<and> (controller_type s = VJOY \<and> max_steering_angle s \<noteq> 0 \<longrightarrow>
           effects (unregister_client s c) = effects s @
             [SetAxis HID_USAGE_X 16384, SetAxis HID_USAGE_Y 32767, SetAxis HID_USAGE_Z 1,
              SetButton 1 False, SetButton 2 False])
      \<and> (controller_type s = KEYBOARD \<and> distinct (keys_pressed s) \<longrightarrow>
           effects (unregister_client s c) = effects s @ map KeyUp (keys_pressed s)
           \<and> keys_pressed (unregister_client s c) = []))
   \<and> (connected_clients s - {c} \<noteq> {} \<longrightarrow>
        unregister_client s c = s\<lparr>connected_clients := connected_clients s - {c}\<rparr>)"
proof (intro conjI impI)
  assume one: "connected_clients s = {c}"
  let ?s1 = "s\<lparr>connected_clients := {}\<rparr>"
  show u: "unregister_client s c = release_all_inputs ?s1"
    using one by (simp add: unregister_client_def Let_def)
  show "connected_clients (unregister_client s c) = {}"
    using release_all_inputs_rest [of ?s1] by (simp add: u)
  show "control_state (unregister_client s c) = neutral"
    by (simp add: u release_all_inputs_control_state neutral_def)
  {
    assume "controller_type s = VGAMEPAD_XBOX \<and> max_steering_angle s \<noteq> 0"
    then show "effects (unregister_client s c) = effects s @
             [PadReset, PadUpdate, LeftJoystickFloat (Num 0) (Num 0),
              RightTriggerFloat (Num 0), LeftTriggerFloat (Num 0),
              ReleaseButton XUSB_GAMEPAD_A, ReleaseButton XUSB_GAMEPAD_X, PadUpdate]"
      using release_all_inputs_vgamepad [of ?s1] by (simp add: u)
  }
  {
    assume "controller_type s = VJOY \<and> max_steering_angle s \<noteq> 0"
    then show "effects (unregister_client s c) = effects s @
             [SetAxis HID_USAGE_X 16384, SetAxis HID_USAGE_Y 32767, SetAxis HID_USAGE_Z 1,
              SetButton 1 False, SetButton 2 False]"
      using release_all_inputs_vjoy [of ?s1] by (simp add: u)
  }
  {
    assume k: "controller_type s = KEYBOARD \<and> distinct (keys_pressed s)"
    then show "effects (unregister_client s c) = effects s @ map KeyUp (keys_pressed s)"
      using release_all_inputs_keyboard [of ?s1] by (simp add: u)
    from k show "keys_pressed (unregister_client s c) = []"
      using release_all_inputs_keyboard [of ?s1] by (simp add: u)
  }
next
  assume "connected_clients s - {c} \<noteq> {}"
  then show "unregister_client s c = s\<lparr>connected_clients := connected_clients s - {c}\<rparr>"
    by (simp add: unregister_client_def Let_def)
qed

theorem last_disconnect_resets_witness:
  "control_state (unregister_client
     ((init_server KEYBOARD)\<lparr>connected_clients := {1}, current_accelerator := Num 1,
        keys_pressed := [''w''], effects := [KeyDown ''w'']\<rparr>) 1)
     = (Num 0, Num 0, Num 0, False, False)
   \<and> connected_clients (unregister_client
     ((init_server KEYBOARD)\<lparr>connected_clients := {1}, current_accelerator := Num 1,
        keys_pressed := [''w''], effects := [KeyDown ''w'']\<rparr>) 1) = {}
   \<and> effects (unregister_client
     ((init_server KEYBOARD)\<lparr>connected_clients := {1}, current_accelerator := Num 1,
        keys_pressed := [''w''], effects := [KeyDown ''w'']\<rparr>) 1)
     = [KeyDown ''w'', KeyUp ''w'']
   \<and> unregister_client
     ((init_server KEYBOARD)\<lparr>connected_clients := {1, 2}, current_accelerator := Num 1,
        keys_pressed := [''w''], effects := [KeyDown ''w'']\<rparr>) 1
   = (init_server KEYBOARD)\<lparr>connected_clients := {2}, current_accelerator := Num 1,
        keys_pressed := [''w''], effects := [KeyDown ''w'']\<rparr>"
proof -
  let ?s = "(init_server KEYBOARD)\<lparr>connected_clients := {1}, current_accelerator := Num 1,
        keys_pressed := [''w''], effects := [KeyDown ''w'']\<rparr>"
  let ?t = "(init_server KEYBOARD)\<lparr>connected_clients := {1, 2}, current_accelerator := Num 1,
        keys_pressed := [''w''], effects := [KeyDown ''w'']\<rparr>"
  have one: "connected_clients ?s = {1}" by simp
  have kb: "controller_type ?s = KEYBOARD \<and> distinct (keys_pressed ?s)"
    by (simp add: init_server_def)
  have two: "connected_clients ?t - {1} \<noteq> {}" by simp
  have a: "control_state (unregister_client ?s 1) = neutral"
    and b: "connected_clients (unregister_client ?s 1) = {}"
    and c: "effects (unregister_client ?s 1) = effects ?s @ map KeyUp (keys_pressed ?s)"
    using last_disconnect_resets [of ?s 1] one kb by blast+
  have d: "unregister_client ?t 1 = ?t\<lparr>connected_clients := connected_clients ?t - {1}\<rparr>"
    using last_disconnect_resets [of ?t 1] two by blast
  have e: "?t\<lparr>connected_clients := connected_clients ?t - {1}\<rparr>
    = (init_server KEYBOARD)\<lparr>connected_clients := {2}, current_accelerator := Num 1,
        keys_pressed := [''w''], effects := [KeyDown ''w'']\<rparr>"
    by (simp add: init_server_def)
  have c': "effects ?s @ map KeyUp (keys_pressed ?s) = [KeyDown ''w'', KeyUp ''w'']"
    by simp
  show ?thesis
    using a b c d unfolding e c' neutral_def by (intro conjI)
qed

section \<open>Key presses and releases\<close>

lemma held_after_append: "held_after H (es @ fs) = held_after (held_after H es) fs"
  by (induction H es rule: held_after.induct) simp_all

lemma transitions_only_append:
  "transitions_only H (es @ fs) =
     (transitions_only H es \<and> transitions_only (held_after H es) fs)"
  by (induction H es rule: transitions_only.induct) simp_all

lemma keys_ok_press_key: "keys_ok s \<Longrightarrow> keys_ok (press_key s k)"
  by (auto simp: keys_ok_def press_key_def transitions_only_append held_after_append)

lemma keys_ok_release_key: "keys_ok s \<Longrightarrow> keys_ok (release_key s k)"
  by (auto simp: keys_ok_def release_key_def transitions_only_append held_after_append)

lemma keys_ok_switch_key: "keys_ok s \<Longrightarrow> keys_ok (switch_key b k s)"
  by (simp add: switch_key_def keys_ok_press_key keys_ok_release_key)

lemma keys_ok_steer_keys: "keys_ok s \<Longrightarrow> keys_ok (steer_keys s)"
  by (simp add: steer_keys_def keys_ok_press_key keys_ok_release_key)

lemma keys_ok_keyboard: "keys_ok s \<Longrightarrow> keys_ok (update_keyboard_controller s)"
  unfolding update_keyboard_controller_def Let_def
  by (intro keys_ok_switch_key keys_ok_steer_keys)

lemma keys_ok_other_calls:
  assumes "keys_ok s" and "list_all (\<lambda>e. \<not> key_call e) es"
  shows "keys_ok (s\<lparr>effects := effects s @ es\<rparr>)"
proof -
  have "transitions_only H es \<and> held_after H es = H" for H
    using assms(2)
  proof (induction es arbitrary: H)
    case Nil
    show ?case by simp
  next
    case (Cons e es)
    then show ?case by (cases e) simp_all
  qed
  with assms(1) show ?thesis
    by (simp add: keys_ok_def transitions_only_append held_after_append)
qed

lemma keys_ok_emit: "keys_ok s \<Longrightarrow> \<not> key_call e \<Longrightarrow> keys_ok (emit s e)"
  using keys_ok_other_calls [of s "[e]"] by (simp add: emit_def)

lemma keys_ok_vgamepad: "keys_ok s \<Longrightarrow> keys_ok (update_vgamepad_controller s)"
  by (auto simp: update_vgamepad_controller_def Let_def keys_ok_emit
      intro!: keys_ok_other_calls split: sum.split)

lemma keys_ok_vjoy: "keys_ok s \<Longrightarrow> keys_ok (update_vjoy_controller s)"
  unfolding update_vjoy_controller_def Let_def
  by (intro keys_ok_emit | simp | split sum.split, intro conjI allI impI)+

lemma keys_ok_update_controller: "keys_ok s \<Longrightarrow> keys_ok (update_controller s)"
  by (simp add: update_controller_def keys_ok_keyboard keys_ok_vgamepad keys_ok_vjoy
      split: ctype.split)

lemma keys_ok_foldl_release: "keys_ok s \<Longrightarrow> keys_ok (foldl release_key s ks)"
  by (induction ks arbitrary: s) (simp_all add: keys_ok_release_key)


lemma keys_ok_same_device:
  "keys_pressed t = keys_pressed s \<Longrightarrow> effects t = effects s \<Longrightarrow> keys_ok t = keys_ok s"
  by (simp add: keys_ok_def)

lemma keys_ok_set_steering: "keys_ok s \<Longrightarrow> set_steering s p = Inr s' \<Longrightarrow> keys_ok s'"
  using set_steering_cases [of s p s'] by (auto simp: keys_ok_def)

lemma keys_ok_set_accelerator: "keys_ok s \<Longrightarrow> set_accelerator s p = Inr s' \<Longrightarrow> keys_ok s'"
  using set_accelerator_cases [of s p s'] by (auto simp: keys_ok_def)

lemma keys_ok_set_brake: "keys_ok s \<Longrightarrow> set_brake s p = Inr s' \<Longrightarrow> keys_ok s'"
  using set_brake_cases [of s p s'] by (auto simp: keys_ok_def)

lemma keys_ok_handle_update:
  assumes "keys_ok s"
  shows "keys_ok (snd (handle_update s p))"
proof (cases "set_steering s p")
  case (Inl e)
  then show ?thesis using assms by (simp add: handle_update_def)
next
  case s1: (Inr s1)
  have i1: "keys_ok s1" using assms s1 by (rule keys_ok_set_steering)
  show ?thesis
  proof (cases "set_accelerator s1 p")
    case (Inl e)
    then show ?thesis using s1 i1 by (simp add: handle_update_def)
  next
    case s2: (Inr s2)
    have i2: "keys_ok s2" using i1 s2 by (rule keys_ok_set_accelerator)
    show ?thesis
    proof (cases "set_brake s2 p")
      case (Inl e)
      then show ?thesis using s1 s2 i2 by (simp add: handle_update_def)
    next
      case s3: (Inr s3)
      have "keys_ok s3" using i2 s3 by (rule keys_ok_set_brake)
      then show ?thesis using s1 s2 s3 by (simp add: handle_update_def keys_ok_update_controller)
    qed
  qed
qed

lemma keys_ok_release_all_inputs:
  assumes "keys_ok s"
  shows "keys_ok (release_all_inputs s)"
proof -
  let ?s0 = "s\<lparr>current_steering := Num 0, current_accelerator := Num 0,
                 current_brake := Num 0, handbrake_pressed := False,
                 horn_pressed := False\<rparr>"
  have s0: "keys_ok ?s0" using assms by (simp add: keys_ok_def)
  have "keys_ok (if controller_type ?s0 = KEYBOARD then foldl release_key ?s0 (keys_pressed ?s0)
      else if controller_type ?s0 = VGAMEPAD_XBOX then emit (emit ?s0 PadReset) PadUpdate
      else ?s0)"
    using s0 by (simp add: keys_ok_foldl_release keys_ok_emit)
  then show ?thesis
    unfolding release_all_inputs_def Let_def by (rule keys_ok_update_controller)
qed

lemma keys_ok_handle_message_try:
  assumes "keys_ok s"
  shows "keys_ok (snd (handle_message_try loads s m))"
proof (cases "loads m")
  case (Inl e)
  then show ?thesis using assms by (simp add: handle_message_try_def)
next
  case d: (Inr data)
  show ?thesis
  proof (cases "py_get data ''command'' JNull")
    case (Inl e)
    then show ?thesis using assms d by (simp add: handle_message_try_def)
  next
    case c: (Inr command)
    show ?thesis
    proof (cases "py_get data ''data'' (JObj [])")
      case (Inl e)
      then show ?thesis using assms d c by (simp add: handle_message_try_def)
    next
      case p: (Inr payload)
      have h: "keys_ok (s\<lparr>handbrake_pressed := b\<rparr>)" "keys_ok (s\<lparr>horn_pressed := b\<rparr>)" for b
        using assms by (simp_all add: keys_ok_def)
      show ?thesis
        using assms
        by (simp add: handle_message_try_def d c p keys_ok_update_controller h
            keys_ok_handle_update keys_ok_release_all_inputs)
    qed
  qed
qed

lemma keys_ok_handle_message: "keys_ok s \<Longrightarrow> keys_ok (snd (handle_message loads s c m))"
  using keys_ok_handle_message_try [of s loads m]
  by (auto simp: handle_message_def keys_ok_emit split: prod.splits option.splits)

lemma keys_ok_register: "keys_ok (register_client s c) = keys_ok s"
  by (simp add: register_client_def keys_ok_def)

lemma keys_ok_unregister:
  assumes "keys_ok s"
  shows "keys_ok (unregister_client s c)"
proof -
  let ?s1 = "s\<lparr>connected_clients := connected_clients s - {c}\<rparr>"
  have i: "keys_ok ?s1" using assms by (simp add: keys_ok_def)
  then have "keys_ok (release_all_inputs ?s1)" by (rule keys_ok_release_all_inputs)
  with i show ?thesis by (simp add: unregister_client_def Let_def)
qed

lemma keys_ok_step: "keys_ok s \<Longrightarrow> keys_ok (step loads s ev)"
  by (cases ev) (simp_all add: keys_ok_register keys_ok_handle_message keys_ok_unregister)

lemma keys_ok_run: "keys_ok s \<Longrightarrow> keys_ok (run loads s evs)"
  unfolding run_def
  by (induction evs arbitrary: s) (simp_all add: keys_ok_step)

lemma keys_ok_init: "keys_ok (init_server ct)"
  by (simp add: keys_ok_def init_server_def)

lemma same_side_one_press:
  assumes "loads m1 = Inr (update_message [(''steering'', JInt 50)])"
    and "loads m2 = Inr (update_message [(''steering'', JInt 60)])"
  shows "effects (run loads (init_server KEYBOARD) [Message c m1, Message c m2])
    = [KeyDown ''d'']"
  using assms
  by (simp add: run_def handle_message_def handle_message_try_def update_message_def
      handle_update_def set_steering_def set_accelerator_def set_brake_def init_server_def
      py_max_def py_min_def update_controller_def update_keyboard_controller_def
      steer_keys_def switch_key_def press_key_def release_key_def Let_def)

text \<open>
  C7.  After every sequence of connects, messages and disconnects from the initial
  state, the list of calls contains a \<open>KeyDown\<close> only for a key that the calls before it
  left released and a \<open>KeyUp\<close> only for a key that they left held, and the keys held
  by the keyboard are exactly \<open>keys_pressed\<close>.  In particular two \<^verbatim>\<open>update\<close> messages
  with steering 50 and then 60 make one \<open>KeyDown\<close> of the right key, and no other call.
\<close>

theorem keyboard_emits_transitions_only:
  "transitions_only {} (effects (run loads (init_server ct) evs))
   \<and> held_after {} (effects (run loads (init_server ct) evs))
       = set (keys_pressed (run loads (init_server ct) evs))
   \<and> (loads m1 = Inr (update_message [(''steering'', JInt 50)])
       \<and> loads m2 = Inr (update_message [(''steering'', JInt 60)]) \<longrightarrow>
      effects (run loads (init_server KEYBOARD) [Message c m1, Message c m2])
        = [KeyDown ''d''])"
  using keys_ok_run [OF keys_ok_init, of loads ct evs] same_side_one_press [of loads m1 m2 c]
  by (simp add: keys_ok_def)

theorem keyboard_emits_transitions_only_witness:
  "effects (run (\<lambda>m. Inr (update_message
        [(''steering'', JInt (if m = ''first'' then 50 else 60))]))
      (init_server KEYBOARD) [Message 0 ''first'', Message 0 ''second''])
    = [KeyDown ''d'']
   \<and> transitions_only {} (effects (run (\<lambda>m. Inr (update_message
        [(''steering'', JInt (if m = ''first'' then 50 else 60))]))
      (init_server KEYBOARD) [Message 0 ''first'', Message 0 ''second'']))"
  using keyboard_emits_transitions_only
    [of "\<lambda>m. Inr (update_message [(''steering'', JInt (if m = ''first'' then 50 else 60))])"
      KEYBOARD "[Message 0 ''first'', Message 0 ''second'']" "''first''" "''second''" 0]
  by simp

section \<open>The keyboard states\<close>

lemma switch_key_other:
  "k' \<noteq> k \<Longrightarrow> (k' \<in> set (keys_pressed (switch_key b k s))) = (k' \<in> set (keys_pressed s))"
  by (auto simp: switch_key_def press_key_def release_key_def)

lemma switch_key_same:
  "(k \<in> set (keys_pressed (switch_key b k s))) = b"
  by (auto simp: switch_key_def press_key_def release_key_def)

lemma steer_keys_off_boundary:
  assumes "current_steering s = Num x"
  shows "(\<bar>x\<bar> < 10 \<longrightarrow> ''a'' \<notin> set (keys_pressed (steer_keys s))
            \<and> ''d'' \<notin> set (keys_pressed (steer_keys s)))
       \<and> (x < - 10 \<longrightarrow> ''a'' \<in> set (keys_pressed (steer_keys s))
            \<and> ''d'' \<notin> set (keys_pressed (steer_keys s)))
       \<and> (10 < x \<longrightarrow> ''d'' \<in> set (keys_pressed (steer_keys s))
            \<and> ''a'' \<notin> set (keys_pressed (steer_keys s)))"
  using assms by (auto simp: steer_keys_def press_key_def release_key_def)

lemma keyboard_states_off_boundary:
  assumes "current_steering s = Num x" and "current_accelerator s = Num a"
    and "current_brake s = Num b"
  shows "(\<bar>x\<bar> < 10 \<longrightarrow> ''a'' \<notin> set (keys_pressed (update_keyboard_controller s))
            \<and> ''d'' \<notin> set (keys_pressed (update_keyboard_controller s)))
       \<and> (x < - 10 \<longrightarrow> ''a'' \<in> set (keys_pressed (update_keyboard_controller s))
            \<and> ''d'' \<notin> set (keys_pressed (update_keyboard_controller s)))
       \<and> (10 < x \<longrightarrow> ''d'' \<in> set (keys_pressed (update_keyboard_controller s))
            \<and> ''a'' \<notin> set (keys_pressed (update_keyboard_controller s)))
       \<and> (''w'' \<in> set (keys_pressed (update_keyboard_controller s))) = (1 / 10 < a)
       \<and> (''s'' \<in> set (keys_pressed (update_keyboard_controller s))) = (1 / 10 < b)"
  using steer_keys_off_boundary [OF assms(1)] assms(2,3)
  by (simp add: update_keyboard_controller_def Let_def switch_key_other switch_key_same)

text \<open>
  C6.  The first \<^verbatim>\<open>if\<close>/\<^verbatim>\<open>elif\<close> chain of \<open>update_keyboard_controller\<close> tests
  \<open>abs(steering) < 10\<close>, \<open>steering < -10\<close> and \<open>steering > 10\<close>, and has no branch for
  a steering of exactly 10 or -10.  Off that boundary the keys are in the three states
  of the specification (\<open>keyboard_states_off_boundary\<close> above).  On it the left and right keys keep whatever
  state they had: after steering -50 and then steering 10 the left key is still held
  and the right key was never pressed.
\<close>

theorem keyboard_boundary_keeps_left_key:
  "current_steering (run (\<lambda>m. Inr (update_message
        [(''steering'', JInt (if m = ''first'' then - 50 else 10))]))
      (init_server KEYBOARD) [Message 0 ''first'', Message 0 ''second'']) = Num 10
   \<and> keys_pressed (run (\<lambda>m. Inr (update_message
        [(''steering'', JInt (if m = ''first'' then - 50 else 10))]))
      (init_server KEYBOARD) [Message 0 ''first'', Message 0 ''second'']) = [''a'']
   \<and> effects (run (\<lambda>m. Inr (update_message
        [(''steering'', JInt (if m = ''first'' then - 50 else 10))]))
      (init_server KEYBOARD) [Message 0 ''first'', Message 0 ''second'']) = [KeyDown ''a'']"
  by (simp add: run_def handle_message_def handle_message_try_def update_message_def
      handle_update_def set_steering_def set_accelerator_def set_brake_def init_server_def
      py_max_def py_min_def update_controller_def update_keyboard_controller_def
      steer_keys_def switch_key_def press_key_def release_key_def Let_def)

end
